theory Spec2Isabelle
  imports Complex_Main
begin

section \<open>Go strings and the library functions the code calls\<close>

text \<open>
  A Go \<open>string\<close> and a \<open>[]byte\<close> are byte sequences: both are modelled as \<open>string\<close>
  (a \<open>char list\<close>, one \<open>char\<close> per byte), and \<open>len\<close> is \<open>length\<close>.

  The functions of packages \<open>strings\<close>, \<open>path/filepath\<close> and \<open>strconv\<close> that the code
  calls are written out below on bytes; the path separator is the Unix one.
  \<open>strings.ToLower\<close>, which needs the case tables of Unicode, is a parameter of the
  detector instead.
\<close>

definition HasPrefix :: "string \<Rightarrow> string \<Rightarrow> bool" where
  "HasPrefix s p = (take (length p) s = p)"

text \<open>
  White space. \<open>strings.TrimSpace\<close> and \<open>strings.Fields\<close> work on the runes of the
  UTF-8 text and use \<open>unicode.IsSpace\<close>: the code points of the property
  \<open>White_Space\<close>, listed here, of which the first six are the ASCII ones.
\<close>

definition White_Space :: "int list" where
  "White_Space = [0x09, 0x0A, 0x0B, 0x0C, 0x0D, 0x20, 0x85, 0xA0, 0x1680]
                 @ [0x2000..0x200A] @ [0x2028, 0x2029, 0x202F, 0x205F, 0x3000]"

text \<open>The UTF-8 encoding of a code point below \<open>0x10000\<close>.\<close>

definition encodeRune :: "int \<Rightarrow> string" where
  "encodeRune r =
     (if r < 0x80 then [char_of r]
      else if r < 0x800 then [char_of (0xC0 + r div 64), char_of (0x80 + r mod 64)]
      else [char_of (0xE0 + r div 4096), char_of (0x80 + (r div 64) mod 64),
            char_of (0x80 + r mod 64)])"

definition spaceRunes :: "string list" where
  "spaceRunes = map encodeRune White_Space"

text \<open>
  Go decodes a text rune by rune, and a byte that is no valid encoding is a rune of
  its own (\<open>RuneError\<close>, one byte wide, no white space). Every encoding of a white
  space rune starts with a byte that is never the second, third or fourth byte of
  another rune, so a white space rune stands at an offset exactly when the bytes
  there are one of \<open>spaceRunes\<close>, and it ends the text exactly when the last bytes are
  one of them. \<open>spaceWidth s\<close> is the width of the white space rune that \<open>s\<close> starts
  with and \<open>spaceWidthLast s\<close> that of the one it ends with, 0 when there is none.
\<close>

definition spaceWidth :: "string \<Rightarrow> nat" where
  "spaceWidth s =
     (case find (\<lambda>q. HasPrefix s q) spaceRunes of None \<Rightarrow> 0 | Some q \<Rightarrow> length q)"

definition spaceWidthLast :: "string \<Rightarrow> nat" where
  "spaceWidthLast s =
     (case find (\<lambda>q. HasPrefix (rev s) (rev q)) spaceRunes of
        None \<Rightarrow> 0
      | Some q \<Rightarrow> length q)"

text \<open>\<open>strings.TrimSpace\<close>: the white space runes at both ends are removed.\<close>

function TrimLeftSpace :: "string \<Rightarrow> string" where
  "TrimLeftSpace s =
     (if s = [] \<or> spaceWidth s = 0 then s else TrimLeftSpace (drop (spaceWidth s) s))"
  by pat_completeness auto
termination
  by (relation "measure length") auto

function TrimRightSpace :: "string \<Rightarrow> string" where
  "TrimRightSpace s =
     (if s = [] \<or> spaceWidthLast s = 0 then s
      else TrimRightSpace (take (length s - spaceWidthLast s) s))"
  by pat_completeness auto
termination
  by (relation "measure length") auto

definition TrimSpace :: "string \<Rightarrow> string" where
  "TrimSpace s = TrimRightSpace (TrimLeftSpace s)"

text \<open>\<open>strings.Fields\<close>: the maximal runs of runes that are no white space, in order.\<close>

function Fields :: "string \<Rightarrow> string list" where
  "Fields [] = []"
| "Fields (c # cs) =
     (if spaceWidth (c # cs) > 0 then Fields (drop (spaceWidth (c # cs) - 1) cs)
      else if cs = [] \<or> spaceWidth cs > 0 then [c] # Fields cs
      else (case Fields cs of [] \<Rightarrow> [[c]] | f # fs \<Rightarrow> (c # f) # fs))"
  by pat_completeness auto
termination
  by (relation "measure length") auto

definition HasSuffix :: "string \<Rightarrow> string \<Rightarrow> bool" where
  "HasSuffix s p = (length p \<le> length s \<and> drop (length s - length p) s = p)"

definition TrimPrefix :: "string \<Rightarrow> string \<Rightarrow> string" where
  "TrimPrefix s p = (if HasPrefix s p then drop (length p) s else s)"

definition TrimSuffix :: "string \<Rightarrow> string \<Rightarrow> string" where
  "TrimSuffix s p = (if HasSuffix s p then take (length s - length p) s else s)"

text \<open>\<open>strings.Index\<close>: the offset of the first occurrence, \<open>None\<close> for Go's \<open>-1\<close>.\<close>

fun Index :: "string \<Rightarrow> string \<Rightarrow> nat option" where
  "Index [] sub = (if sub = [] then Some 0 else None)"
| "Index (c # cs) sub =
     (if HasPrefix (c # cs) sub then Some 0
      else map_option Suc (Index cs sub))"

definition Contains :: "string \<Rightarrow> string \<Rightarrow> bool" where
  "Contains s sub = (Index s sub \<noteq> None)"

text \<open>\<open>strings.Count\<close> and \<open>strings.Split\<close>, for a separator of one byte.\<close>

definition CountByte :: "string \<Rightarrow> char \<Rightarrow> nat" where
  "CountByte s c = length (filter (\<lambda>d. d = c) s)"

fun SplitByte :: "string \<Rightarrow> char \<Rightarrow> string list" where
  "SplitByte [] sep = [[]]"
| "SplitByte (c # cs) sep =
     (if c = sep then [] # SplitByte cs sep
      else (case SplitByte cs sep of [] \<Rightarrow> [[c]] | p # ps \<Rightarrow> (c # p) # ps))"

fun Join :: "string list \<Rightarrow> string \<Rightarrow> string" where
  "Join [] sep = []"
| "Join [x] sep = x"
| "Join (x # y # ys) sep = x @ sep @ Join (y # ys) sep"

text \<open>
  \<open>filepath.Ext\<close>: the suffix that starts at the last dot of the last path element,
  empty when that element has no dot. The scan runs from the end of the path and stops
  at the first separator.
\<close>

fun extRev :: "string \<Rightarrow> string \<Rightarrow> string" where
  "extRev [] acc = []"
| "extRev (c # cs) acc =
     (if c = CHR ''/'' then []
      else if c = CHR ''.'' then c # acc
      else extRev cs (c # acc))"

definition Ext :: "string \<Rightarrow> string" where
  "Ext path = extRev (rev path) []"

text \<open>
  \<open>filepath.Base\<close>: the last element of the path; trailing separators are removed
  first, the empty path gives a dot and a path of separators only gives a separator.
\<close>

definition Base :: "string \<Rightarrow> string" where
  "Base path =
     (if path = [] then ''.''
      else (let p = rev (dropWhile (\<lambda>c. c = CHR ''/'') (rev path));
                e = rev (takeWhile (\<lambda>c. c \<noteq> CHR ''/'') (rev p))
            in if e = [] then ''/'' else e))"

section \<open>File type detector (internal/detector/detector.go)\<close>

datatype FileType = FileTypeJFR | FileTypeTTop | FileTypeIOStat | FileTypeArchive | FileTypeUnknown

text \<open>The string value of each constant of the source.\<close>

fun FileType_value :: "FileType \<Rightarrow> string" where
  "FileType_value FileTypeJFR = ''jfr''"
| "FileType_value FileTypeTTop = ''ttop''"
| "FileType_value FileTypeIOStat = ''iostat''"
| "FileType_value FileTypeArchive = ''archive''"
| "FileType_value FileTypeUnknown = ''unknown''"

definition isArchive :: "string \<Rightarrow> bool" where
  "isArchive ext = list_ex (\<lambda>archiveExt. ext = archiveExt)
                     [''.zip'', ''.tar'', ''.tar.gz'', ''.tgz'', ''.gz'']"

text \<open>
  The detector calls four functions of the Go library that are parameters of the
  model, since the detector only looks at what they return:
  \<^item> \<open>ToLower s\<close> is \<open>strings.ToLower(s)\<close>, Unicode's lower-casing;
  \<^item> \<open>zipNewReader content\<close> is \<open>None\<close> when \<open>zip.NewReader\<close> returns an error, else the
    entries of the central directory, each with its name and whether it is a directory;
  \<^item> \<open>gzipTarHeaders content\<close> is \<open>None\<close> when \<open>gzip.NewReader\<close> rejects the header, else
    the headers that \<open>Next\<close> of a tar reader over the decompressed stream returns before
    its first error (end of archive included);
  \<^item> \<open>tarHeaders content\<close> is the same sequence for a tar reader over the bytes themselves.
\<close>

record zip_File =
  zip_Name :: string
  zip_IsDir :: bool

record tar_Header =
  tar_Name :: string
  tar_Typeflag :: char

definition TypeReg :: char where
  "TypeReg = CHR ''0''"

record detector_lib =
  ToLower :: "string \<Rightarrow> string"
  zipNewReader :: "string \<Rightarrow> zip_File list option"
  gzipTarHeaders :: "string \<Rightarrow> tar_Header list option"
  tarHeaders :: "string \<Rightarrow> tar_Header list"

definition extractZipFileList :: "detector_lib \<Rightarrow> string \<Rightarrow> string list" where
  "extractZipFileList lib content =
     (case zipNewReader lib content of
        None \<Rightarrow> []
      | Some files \<Rightarrow> map zip_Name (filter (\<lambda>file. \<not> zip_IsDir file) files))"

definition readTarFiles :: "tar_Header list \<Rightarrow> string list" where
  "readTarFiles headers =
     map tar_Name (filter (\<lambda>header. tar_Typeflag header = TypeReg) headers)"

text \<open>
  The gzip reader is tried first and the plain TAR reader only when it rejects the
  header. In between the code rewinds a \<open>bytes.Reader\<close> with \<open>Seek(0, 0)\<close>, which
  returns no error, so the branch for that error is not there.
\<close>

definition extractTarFileList :: "detector_lib \<Rightarrow> string \<Rightarrow> string list" where
  "extractTarFileList lib content =
     (case gzipTarHeaders lib content of
        Some headers \<Rightarrow> readTarFiles headers
      | None \<Rightarrow> readTarFiles (tarHeaders lib content))"

definition detectFileTypeByName :: "detector_lib \<Rightarrow> string \<Rightarrow> FileType" where
  "detectFileTypeByName lib filename =
     (let ext = ToLower lib (Ext filename);
          baseName = ToLower lib (Base filename)
      in if ext = ''.jfr'' then FileTypeJFR
         else if Contains baseName ''ttop'' \<and> (ext = ''.txt'' \<or> ext = '''') then FileTypeTTop
         else if Contains baseName ''iostat'' then FileTypeIOStat
         else FileTypeUnknown)"

text \<open>The three counters of \<open>analyzeFileList\<close>, in the order jfr, ttop, iostat.\<close>

definition countFile ::
  "detector_lib \<Rightarrow> string \<Rightarrow> nat \<times> nat \<times> nat \<Rightarrow> nat \<times> nat \<times> nat" where
  "countFile lib filename counts =
     (case counts of
        (jfrCount, ttopCount, iostatCount) \<Rightarrow>
          (case detectFileTypeByName lib filename of
             FileTypeJFR \<Rightarrow> (jfrCount + 1, ttopCount, iostatCount)
           | FileTypeTTop \<Rightarrow> (jfrCount, ttopCount + 1, iostatCount)
           | FileTypeIOStat \<Rightarrow> (jfrCount, ttopCount, iostatCount + 1)
           | _ \<Rightarrow> (jfrCount, ttopCount, iostatCount)))"

definition analyzeFileList :: "detector_lib \<Rightarrow> string list \<Rightarrow> FileType" where
  "analyzeFileList lib files =
     (case fold (countFile lib) files (0, 0, 0) of
        (jfrCount, ttopCount, iostatCount) \<Rightarrow>
          if jfrCount > 0 then FileTypeJFR
          else if ttopCount > 0 then FileTypeTTop
          else if iostatCount > 0 then FileTypeIOStat
          else FileTypeArchive)"

definition detectArchiveContent :: "detector_lib \<Rightarrow> string \<Rightarrow> FileType" where
  "detectArchiveContent lib content =
     (let zipFiles = extractZipFileList lib content
      in if length zipFiles > 0 then analyzeFileList lib zipFiles
         else (let tarFiles = extractTarFileList lib content
               in if length tarFiles > 0 then analyzeFileList lib tarFiles
                  else FileTypeArchive))"

definition isTTopFile :: "string \<Rightarrow> bool" where
  "isTTopFile content =
     (let contentStr = take (min 1000 (length content)) content
      in Contains contentStr ''PID'' \<and> Contains contentStr ''USER''
         \<and> (Contains contentStr ''TIME'' \<or> Contains contentStr ''%CPU''))"

definition isIOStatFile :: "string \<Rightarrow> bool" where
  "isIOStatFile content =
     (let contentStr = take (min 1000 (length content)) content
      in Contains contentStr ''Device''
         \<and> (Contains contentStr ''tps'' \<or> Contains contentStr ''kB_read/s''
            \<or> Contains contentStr ''r/s''))"

definition DetectFileType :: "detector_lib \<Rightarrow> string \<Rightarrow> string \<Rightarrow> FileType" where
  "DetectFileType lib filename content =
     (let ext = ToLower lib (Ext filename)
      in if isArchive ext then detectArchiveContent lib content
         else if length content > 0 \<and> isTTopFile content then FileTypeTTop
         else if length content > 0 \<and> isIOStatFile content then FileTypeIOStat
         else (let baseName = ToLower lib (Base filename)
               in if ext = ''.jfr'' then FileTypeJFR
                  else if Contains baseName ''ttop'' \<and> (ext = ''.txt'' \<or> ext = '''')
                    then FileTypeTTop
                  else if Contains baseName ''iostat'' then FileTypeIOStat
                  else FileTypeUnknown))"

section \<open>More of the Go library: integers, the line scanner, floats and time\<close>

text \<open>
  \<open>strconv.Atoi\<close> on a 64-bit platform: an optional sign, then one or more decimal
  digits, and the value must fit \<open>int\<close>; every other string is an error (\<open>None\<close>).
\<close>

definition isDigit :: "char \<Rightarrow> bool" where
  "isDigit c = ((48::nat) \<le> of_char c \<and> of_char c \<le> (57::nat))"

definition digitsValue :: "string \<Rightarrow> int" where
  "digitsValue ds = foldl (\<lambda>n c. 10 * n + (of_char c - 48)) 0 ds"

definition Atoi :: "string \<Rightarrow> int option" where
  "Atoi s =
     (let neg = (case s of [] \<Rightarrow> False | c # cs \<Rightarrow> c = CHR ''-'');
          ds = (case s of [] \<Rightarrow> []
                | c # cs \<Rightarrow> if c = CHR ''-'' \<or> c = CHR ''+'' then cs else s)
      in if ds = [] \<or> \<not> list_all isDigit ds then None
         else (let v = (if neg then - digitsValue ds else digitsValue ds)
               in if v < - (2 ^ 63) \<or> v > 2 ^ 63 - 1 then None else Some v))"

text \<open>\<open>fmt\<close>'s \<open>%d\<close> for a line number or a count, which is never negative here.\<close>

fun showNat :: "nat \<Rightarrow> string" where
  "showNat n =
     (if n < 10 then [char_of (48 + n)]
      else showNat (n div 10) @ [char_of (48 + n mod 10)])"

text \<open>
  \<open>bufio.Scanner\<close> with its default split function \<open>ScanLines\<close> and its default
  buffer: the input is cut at every newline, the text after the last newline is a
  line of its own when it is not empty, and one trailing carriage return is dropped
  from each line. The buffer grows to \<open>MaxScanTokenSize\<close> bytes and no further: a line
  that does not end within that many bytes stops the scan, \<open>Scan\<close> returns false and
  \<open>Err\<close> returns \<open>ErrTooLong\<close>. The lines before it have been delivered.
  \<open>ScanLines content\<close> is the list of lines that \<open>Scan\<close> delivers and whether \<open>Err\<close>
  is set afterwards; reading from memory has no other fault.
\<close>

fun rawLines :: "string \<Rightarrow> string list" where
  "rawLines [] = []"
| "rawLines (c # cs) =
     (if c = CHR 0x0A then [] # rawLines cs
      else (case rawLines cs of [] \<Rightarrow> [[c]] | l # ls \<Rightarrow> (c # l) # ls))"

definition dropCR :: "string \<Rightarrow> string" where
  "dropCR l = (if l \<noteq> [] \<and> last l = CHR 0x0D then butlast l else l)"

definition MaxScanTokenSize :: int where
  "MaxScanTokenSize = 64 * 1024"

definition fitsBuffer :: "string \<Rightarrow> bool" where
  "fitsBuffer l = (int (length l) < MaxScanTokenSize)"

definition ScanLines :: "string \<Rightarrow> string list \<times> bool" where
  "ScanLines content =
     (map dropCR (takeWhile fitsBuffer (rawLines content)),
      list_ex (\<lambda>l. \<not> fitsBuffer l) (rawLines content))"

text \<open>
  Floating point and time are the library's: \<open>'f\<close> stands for \<open>float64\<close>, \<open>'t\<close> for
  \<open>time.Time\<close> and \<open>'c\<close> for the time of day that the layout \<open>15:04:05\<close> yields.
  The zero of \<open>'f\<close> is \<open>0.0\<close>. The functions are parameters of the parsers:
  \<^item> \<open>ParseFloat s\<close> is \<open>strconv.ParseFloat(s, 64)\<close>, \<open>None\<close> when it returns an error;
  \<^item> \<open>parseClock s\<close> is \<open>time.Parse("15:04:05", s)\<close> and \<open>parseDateTime s\<close> is
    \<open>time.Parse("01/02/06 15:04:05", s)\<close>, \<open>None\<close> on error;
  \<^item> \<open>Now k\<close> is what the call number \<open>k\<close> of \<open>time.Now()\<close> returns, counted from 0;
  \<^item> \<open>todayAt now c\<close> is \<open>time.Date\<close> of the year, month, day and location of \<open>now\<close>
    with the hour, minute and second of \<open>c\<close>.
\<close>

record ('f, 'c, 't) golib =
  ParseFloat :: "string \<Rightarrow> 'f option"
  parseClock :: "string \<Rightarrow> 'c option"
  parseDateTime :: "string \<Rightarrow> 't option"
  Now :: "nat \<Rightarrow> 't"
  todayAt :: "'t \<Rightarrow> 'c \<Rightarrow> 't"

section \<open>TTop parser (internal/reporters/ttop\_parser.go)\<close>

record 'f ThreadInfo =
  PID :: int
  User :: string
  CPU :: 'f
  MEM :: 'f
  Command :: string

record ThreadCounts =
  Total :: int
  Running :: int
  Sleeping :: int
  Stopped :: int
  Zombie :: int

record 'f SystemMemory =
  MemTotal :: 'f
  MemFree :: 'f
  MemUsed :: 'f
  MemBuffCache :: 'f
  SwapTotal :: 'f
  SwapFree :: 'f
  SwapUsed :: 'f
  MemAvail :: 'f

record ('f, 't) TTopSnapshot =
  Timestamp :: 't
  ThreadCounts :: "ThreadCounts option"
  SystemMemory :: "'f SystemMemory option"
  Threads :: "'f ThreadInfo list"

record ('f, 't) TTopReportData =
  Snapshots :: "('f, 't) TTopSnapshot list"

datatype ttop_error =
    InvalidTopLineFormat
  | FailedToParseTopTimestamp string
  | ExpectedThreadCountParts nat
  | ExpectedMemoryParts nat
  | ExpectedSwapParts nat
  | InsufficientFields
  | InvalidPID
  | ErrorReadingContent

definition parseTimestampFromTopLine ::
  "('f, 'c, 't) golib \<Rightarrow> nat \<Rightarrow> string \<Rightarrow> ttop_error + 't" where
  "parseTimestampFromTopLine lib k line =
     (let parts = Fields line
      in if length parts < 3 then Inl InvalidTopLineFormat
         else (let timeStr = parts ! 2
               in case parseClock lib timeStr of
                    None \<Rightarrow> Inl (FailedToParseTopTimestamp timeStr)
                  | Some parsedTime \<Rightarrow> Inr (todayAt lib (Now lib k) parsedTime)))"

definition countPart :: "string \<Rightarrow> ThreadCounts \<Rightarrow> ThreadCounts" where
  "countPart part counts =
     (let fields = Fields (TrimSpace part)
      in if length fields < 2 then counts
         else (case Atoi (fields ! 0) of
                 None \<Rightarrow> counts
               | Some count \<Rightarrow>
                   if fields ! 1 = ''total'' then counts\<lparr>Total := count\<rparr>
                   else if fields ! 1 = ''running'' then counts\<lparr>Running := count\<rparr>
                   else if fields ! 1 = ''sleeping'' then counts\<lparr>Sleeping := count\<rparr>
                   else if fields ! 1 = ''stopped'' then counts\<lparr>Stopped := count\<rparr>
                   else if fields ! 1 = ''zombie'' then counts\<lparr>Zombie := count\<rparr>
                   else counts))"

definition parseThreadCountsLine :: "string \<Rightarrow> ttop_error + ThreadCounts" where
  "parseThreadCountsLine line0 =
     (let line = TrimSpace (TrimPrefix line0 ''Threads:'');
          parts = SplitByte line (CHR '','')
      in if length parts \<noteq> 5 then Inl (ExpectedThreadCountParts (length parts))
         else Inr (fold countPart parts
                     \<lparr>Total = 0, Running = 0, Sleeping = 0, Stopped = 0, Zombie = 0\<rparr>))"

definition memoryPart ::
  "('f, 'c, 't) golib \<Rightarrow> string \<Rightarrow> 'f SystemMemory \<Rightarrow> 'f SystemMemory" where
  "memoryPart lib part memory =
     (let fields = Fields (TrimSpace part)
      in if length fields < 2 then memory
         else (case ParseFloat lib (fields ! 0) of
                 None \<Rightarrow> memory
               | Some v \<Rightarrow>
                   if fields ! 1 = ''total'' then memory\<lparr>MemTotal := v\<rparr>
                   else if fields ! 1 = ''free'' then memory\<lparr>MemFree := v\<rparr>
                   else if fields ! 1 = ''used'' then memory\<lparr>MemUsed := v\<rparr>
                   else if fields ! 1 = ''buff/cache'' then memory\<lparr>MemBuffCache := v\<rparr>
                   else memory))"

text \<open>
  \<open>parseMemoryLine\<close> and \<open>parseSwapLine\<close> write through a pointer: the model returns
  the error, if any, and the memory record as the call leaves it.
\<close>

definition parseMemoryLine ::
  "('f, 'c, 't) golib \<Rightarrow> string \<Rightarrow> 'f SystemMemory \<Rightarrow> ttop_error option \<times> 'f SystemMemory" where
  "parseMemoryLine lib line0 memory =
     (let line1 = TrimSpace (TrimPrefix line0 ''MiB Mem'');
          line = (if HasPrefix line1 '':'' then TrimSpace (TrimPrefix line1 '':'') else line1);
          parts = SplitByte line (CHR '','')
      in if length parts \<noteq> 4 then (Some (ExpectedMemoryParts (length parts)), memory)
         else (None, fold (memoryPart lib) parts memory))"

definition swapPart ::
  "('f, 'c, 't) golib \<Rightarrow> string \<Rightarrow> 'f SystemMemory \<Rightarrow> 'f SystemMemory" where
  "swapPart lib part memory =
     (let fields = Fields (TrimSpace part)
      in if length fields < 2 then memory
         else (case ParseFloat lib (fields ! 0) of
                 None \<Rightarrow> memory
               | Some v \<Rightarrow>
                   (let fieldType = TrimSuffix (fields ! 1) ''.''
                    in if fieldType = ''total'' then memory\<lparr>SwapTotal := v\<rparr>
                       else if fieldType = ''free'' then memory\<lparr>SwapFree := v\<rparr>
                       else if fieldType = ''used'' then memory\<lparr>SwapUsed := v\<rparr>
                       else memory)))"

definition parseSwapLine ::
  "('f, 'c, 't) golib \<Rightarrow> string \<Rightarrow> 'f SystemMemory \<Rightarrow> ttop_error option \<times> 'f SystemMemory" where
  "parseSwapLine lib line0 memory0 =
     (let line = TrimSpace (TrimPrefix line0 ''MiB Swap:'');
          (swap0, memory) =
            (case Index line ''avail Mem'' of
               None \<Rightarrow> (line, memory0)
             | Some availIndex \<Rightarrow>
                 (let beforeAvail = take availIndex line;
                      fields = Fields beforeAvail
                  in if length fields > 0
                     then (let availValue = last fields
                           in (TrimSpace (TrimSuffix beforeAvail availValue),
                               (case ParseFloat lib availValue of
                                  Some v \<Rightarrow> memory0\<lparr>MemAvail := v\<rparr>
                                | None \<Rightarrow> memory0)))
                     else ([], memory0)));
          swap = TrimSpace (TrimSuffix swap0 ''.'');
          parts = SplitByte swap (CHR '','')
      in if length parts \<noteq> 3 then (Some (ExpectedSwapParts (length parts)), memory)
         else (None, fold (swapPart lib) parts memory))"

definition parseThreadLine ::
  "('f::zero, 'c, 't) golib \<Rightarrow> string \<Rightarrow> ttop_error + 'f ThreadInfo" where
  "parseThreadLine lib line =
     (let fields = Fields line
      in if length fields < 12 then Inl InsufficientFields
         else (case Atoi (fields ! 0) of
                 None \<Rightarrow> Inl InvalidPID
               | Some pid \<Rightarrow>
                   Inr \<lparr>PID = pid,
                        User = fields ! 1,
                        CPU = (case ParseFloat lib (fields ! 8) of None \<Rightarrow> 0 | Some cpu \<Rightarrow> cpu),
                        MEM = (case ParseFloat lib (fields ! 9) of None \<Rightarrow> 0 | Some mem \<Rightarrow> mem),
                        Command = Join (drop 11 fields) '' ''\<rparr>))"

text \<open>
  The local variables of \<open>ParseTTop\<close>: the snapshots appended so far, the snapshot
  being filled (\<open>None\<close> for the nil pointer) and the number of calls of \<open>time.Now()\<close>
  made so far.
\<close>

record ('f, 't) ttop_state =
  snapshots :: "('f, 't) TTopSnapshot list"
  currentSnapshot :: "('f, 't) TTopSnapshot option"
  nowCalls :: nat

definition zeroMemory :: "('f::zero) SystemMemory" where
  "zeroMemory = \<lparr>MemTotal = 0, MemFree = 0, MemUsed = 0, MemBuffCache = 0,
                  SwapTotal = 0, SwapFree = 0, SwapUsed = 0, MemAvail = 0\<rparr>"

definition memoryOf :: "('f::zero, 't) TTopSnapshot \<Rightarrow> 'f SystemMemory" where
  "memoryOf s = (case SystemMemory s of None \<Rightarrow> zeroMemory | Some m \<Rightarrow> m)"

text \<open>A write through the pointer \<open>currentSnapshot\<close>, which is not nil where it is used.\<close>

definition onCurrent ::
  "(('f, 't) TTopSnapshot \<Rightarrow> ('f, 't) TTopSnapshot) \<Rightarrow> ('f, 't) ttop_state \<Rightarrow> ('f, 't) ttop_state" where
  "onCurrent f st =
     (case currentSnapshot st of
        None \<Rightarrow> st
      | Some s \<Rightarrow> st\<lparr>currentSnapshot := Some (f s)\<rparr>)"

text \<open>One pass of the body of the scan loop of \<open>ParseTTop\<close>, on the text of one line.\<close>

definition ttopLine ::
  "('f::zero, 'c, 't) golib \<Rightarrow> string \<Rightarrow> ('f, 't) ttop_state \<Rightarrow> ('f, 't) ttop_state" where
  "ttopLine lib text st =
     (let line = TrimSpace text
      in if line = [] then st
         else if HasPrefix line ''top - '' then
           (let timestamp =
                  (case parseTimestampFromTopLine lib (nowCalls st) line of
                     Inl err \<Rightarrow> Now lib (nowCalls st)
                   | Inr t \<Rightarrow> t)
            in st\<lparr>snapshots :=
                     (case currentSnapshot st of
                        None \<Rightarrow> snapshots st
                      | Some s \<Rightarrow> snapshots st @ [s]),
                   currentSnapshot :=
                     Some \<lparr>Timestamp = timestamp, ThreadCounts = None,
                           SystemMemory = None, Threads = []\<rparr>,
                   nowCalls := nowCalls st + 1\<rparr>)
         else if HasPrefix line ''Threads:'' \<and> currentSnapshot st \<noteq> None then
           (case parseThreadCountsLine line of
              Inl err \<Rightarrow> st
            | Inr threadCounts \<Rightarrow> onCurrent (\<lambda>s. s\<lparr>ThreadCounts := Some threadCounts\<rparr>) st)
         else if HasPrefix line ''MiB Mem'' \<and> currentSnapshot st \<noteq> None then
           onCurrent
             (\<lambda>s. s\<lparr>SystemMemory := Some (snd (parseMemoryLine lib line (memoryOf s)))\<rparr>) st
         else if HasPrefix line ''MiB Swap'' \<and> currentSnapshot st \<noteq> None then
           onCurrent
             (\<lambda>s. s\<lparr>SystemMemory := Some (snd (parseSwapLine lib line (memoryOf s)))\<rparr>) st
         else if currentSnapshot st \<noteq> None then
           (case parseThreadLine lib line of
              Inl err \<Rightarrow> st
            | Inr threadInfo \<Rightarrow> onCurrent (\<lambda>s. s\<lparr>Threads := Threads s @ [threadInfo]\<rparr>) st)
         else st)"

definition ttopFinish :: "('f, 't) ttop_state \<Rightarrow> ('f, 't) TTopSnapshot list" where
  "ttopFinish st =
     (case currentSnapshot st of
        None \<Rightarrow> snapshots st
      | Some s \<Rightarrow> snapshots st @ [s])"

definition ParseTTop ::
  "('f::zero, 'c, 't) golib \<Rightarrow> string \<Rightarrow> ttop_error + ('f, 't) TTopReportData" where
  "ParseTTop lib content =
     (if length content = 0 then Inr \<lparr>Snapshots = []\<rparr>
      else (case ScanLines content of
              (lines, scanErr) \<Rightarrow>
                (let st = fold (ttopLine lib) lines
                            \<lparr>snapshots = [], currentSnapshot = None, nowCalls = 0\<rparr>;
                     result = ttopFinish st
                 in if scanErr then Inl ErrorReadingContent
                    else Inr \<lparr>Snapshots = result\<rparr>)))"

section \<open>IOStat parser (internal/reporters/iostat\_parser.go)\<close>

record 'f CPUStats =
  CPUUser :: 'f
  Nice :: 'f
  System :: 'f
  IOWait :: 'f
  Steal :: 'f
  Idle :: 'f

text \<open>In \<open>CPUStats\<close> the field \<open>User\<close> is \<open>CPUUser\<close>: \<open>ThreadInfo\<close> has a \<open>User\<close> too.\<close>

record 'f DeviceStats =
  Device :: string
  ReadsPerS :: 'f
  ReadKBPerS :: 'f
  ReadReqMergedPerS :: 'f
  ReadReqMergedPct :: 'f
  ReadAwait :: 'f
  ReadReqSize :: 'f
  WritesPerS :: 'f
  WriteKBPerS :: 'f
  WriteReqMergedPerS :: 'f
  WriteReqMergedPct :: 'f
  WriteAwait :: 'f
  WriteReqSize :: 'f
  DiscardsPerS :: 'f
  DiscardKBPerS :: 'f
  DiscardReqMergedPerS :: 'f
  DiscardReqMergedPct :: 'f
  DiscardAwait :: 'f
  DiscardReqSize :: 'f
  FlushesPerS :: 'f
  FlushAwait :: 'f
  AvgQueueSize :: 'f
  Utilization :: 'f

record ('f, 't) IOStatSnapshot =
  IOTimestamp :: 't
  CPUStats :: "'f CPUStats option"
  Devices :: "'f DeviceStats list"

record ('f, 't) IOStatReportData =
  SystemInfo :: string
  IOSnapshots :: "('f, 't) IOStatSnapshot list"

text \<open>The errors of the helpers, which \<open>ParseIOStat\<close> wraps with \<open>%w\<close>.\<close>

datatype iostat_cause =
    InvalidTimestampLineFormat
  | FailedToParseTimestamp string
  | ExpectedCPUStatFields nat
  | FailedToParseCPU string
  | ExpectedDeviceStatFields nat
  | FailedToParseField nat

text \<open>The errors of \<open>ParseIOStat\<close>; the first argument is \<open>lineNumber\<close>.\<close>

datatype iostat_error =
    ExpectedCPUFoundTimestamp nat
  | FailedToParseTimestampLine nat iostat_cause
  | UnexpectedCPUHeader nat
  | FailedToParseCPUStatistics nat iostat_cause
  | ExpectedCPUFields nat nat
  | FailedToParseDeviceStatistics nat iostat_cause
  | ExpectedCPUReachedEOF nat

text \<open>
  The messages, as the format strings of the source build them. Where a helper wraps
  an error of \<open>strconv\<close> or \<open>time\<close>, the library's own text follows the last colon
  and is left out.
\<close>

fun causeText :: "iostat_cause \<Rightarrow> string" where
  "causeText InvalidTimestampLineFormat = ''invalid timestamp line format''"
| "causeText (FailedToParseTimestamp dateTimeStr) =
     ''failed to parse timestamp '' @ dateTimeStr @ '': ''"
| "causeText (ExpectedCPUStatFields n) = ''expected 6 CPU stat fields, got '' @ showNat n"
| "causeText (FailedToParseCPU name) = ''failed to parse '' @ name @ '' CPU: ''"
| "causeText (ExpectedDeviceStatFields n) =
     ''expected 23 device stat fields, got '' @ showNat n"
| "causeText (FailedToParseField i) = ''failed to parse field '' @ showNat i @ '': ''"

fun errorText :: "iostat_error \<Rightarrow> string" where
  "errorText (ExpectedCPUFoundTimestamp n) =
     ''line '' @ showNat n
     @ '': expected CPU statistics after timestamp, but found another timestamp''"
| "errorText (FailedToParseTimestampLine n c) =
     ''line '' @ showNat n @ '': failed to parse timestamp: '' @ causeText c"
| "errorText (UnexpectedCPUHeader n) =
     ''line '' @ showNat n @ '': unexpected CPU statistics header''"
| "errorText (FailedToParseCPUStatistics n c) =
     ''line '' @ showNat n @ '': failed to parse CPU statistics: '' @ causeText c"
| "errorText (ExpectedCPUFields n k) =
     ''line '' @ showNat n @ '': expected CPU statistics with 6 fields, got ''
     @ showNat k @ '' fields''"
| "errorText (FailedToParseDeviceStatistics n c) =
     ''line '' @ showNat n @ '': failed to parse device statistics: '' @ causeText c"
| "errorText (ExpectedCPUReachedEOF n) =
     ''line '' @ showNat n
     @ '': expected CPU statistics after timestamp, but reached end of file''"

definition isTimestampLine :: "string \<Rightarrow> bool" where
  "isTimestampLine line =
     (let parts = Fields line
      in if length parts < 2 then False
         else (let datePart = parts ! 0
               in length datePart = 8 \<and> CountByte datePart (CHR ''/'') = 2))"

definition parseIOStatTimestamp ::
  "('f, 'c, 't) golib \<Rightarrow> string \<Rightarrow> iostat_cause + 't" where
  "parseIOStatTimestamp lib line =
     (let parts = Fields line
      in if length parts < 2 then Inl InvalidTimestampLineFormat
         else (let dateTimeStr = parts ! 0 @ '' '' @ parts ! 1
               in case parseDateTime lib dateTimeStr of
                    None \<Rightarrow> Inl (FailedToParseTimestamp dateTimeStr)
                  | Some parsedTime \<Rightarrow> Inr parsedTime))"

definition parseCPUStatsLine ::
  "('f, 'c, 't) golib \<Rightarrow> string \<Rightarrow> iostat_cause + 'f CPUStats" where
  "parseCPUStatsLine lib line =
     (let fields = Fields line
      in if length fields \<noteq> 6 then Inl (ExpectedCPUStatFields (length fields))
         else (case ParseFloat lib (fields ! 0) of
            None \<Rightarrow> Inl (FailedToParseCPU ''user'')
          | Some user \<Rightarrow> (case ParseFloat lib (fields ! 1) of
            None \<Rightarrow> Inl (FailedToParseCPU ''nice'')
          | Some nice \<Rightarrow> (case ParseFloat lib (fields ! 2) of
            None \<Rightarrow> Inl (FailedToParseCPU ''system'')
          | Some system \<Rightarrow> (case ParseFloat lib (fields ! 3) of
            None \<Rightarrow> Inl (FailedToParseCPU ''iowait'')
          | Some iowait \<Rightarrow> (case ParseFloat lib (fields ! 4) of
            None \<Rightarrow> Inl (FailedToParseCPU ''steal'')
          | Some steal \<Rightarrow> (case ParseFloat lib (fields ! 5) of
            None \<Rightarrow> Inl (FailedToParseCPU ''idle'')
          | Some idle \<Rightarrow>
              Inr \<lparr>CPUUser = user, Nice = nice, System = system,
                   IOWait = iowait, Steal = steal, Idle = idle\<rparr>)))))))"

text \<open>
  The loop \<open>for i := 1; i < 23; i++\<close> of \<open>parseDeviceStatsLine\<close>: \<open>parseValues lib i fs\<close>
  parses the fields \<open>fs\<close>, the first of which has index \<open>i\<close>, and stops at the first
  one that is not a number.
\<close>

fun parseValues :: "('f, 'c, 't) golib \<Rightarrow> nat \<Rightarrow> string list \<Rightarrow> iostat_cause + 'f list" where
  "parseValues lib i [] = Inr []"
| "parseValues lib i (f # fs) =
     (case ParseFloat lib f of
        None \<Rightarrow> Inl (FailedToParseField i)
      | Some val \<Rightarrow>
          (case parseValues lib (i + 1) fs of
             Inl err \<Rightarrow> Inl err
           | Inr vals \<Rightarrow> Inr (val # vals)))"

definition parseDeviceStatsLine ::
  "('f, 'c, 't) golib \<Rightarrow> string \<Rightarrow> iostat_cause + 'f DeviceStats" where
  "parseDeviceStatsLine lib line =
     (let fields = Fields line
      in if length fields \<noteq> 23 then Inl (ExpectedDeviceStatFields (length fields))
         else (case parseValues lib 1 (tl fields) of
                 Inl err \<Rightarrow> Inl err
               | Inr values \<Rightarrow>
                   Inr \<lparr>Device = fields ! 0,
                        ReadsPerS = values ! 0,
                        ReadKBPerS = values ! 1,
                        ReadReqMergedPerS = values ! 2,
                        ReadReqMergedPct = values ! 3,
                        ReadAwait = values ! 4,
                        ReadReqSize = values ! 5,
                        WritesPerS = values ! 6,
                        WriteKBPerS = values ! 7,
                        WriteReqMergedPerS = values ! 8,
                        WriteReqMergedPct = values ! 9,
                        WriteAwait = values ! 10,
                        WriteReqSize = values ! 11,
                        DiscardsPerS = values ! 12,
                        DiscardKBPerS = values ! 13,
                        DiscardReqMergedPerS = values ! 14,
                        DiscardReqMergedPct = values ! 15,
                        DiscardAwait = values ! 16,
                        DiscardReqSize = values ! 17,
                        FlushesPerS = values ! 18,
                        FlushAwait = values ! 19,
                        AvgQueueSize = values ! 20,
                        Utilization = values ! 21\<rparr>))"

text \<open>The local variables of \<open>ParseIOStat\<close>.\<close>

record ('f, 't) iostat_state =
  ioSnapshots :: "('f, 't) IOStatSnapshot list"
  ioCurrentSnapshot :: "('f, 't) IOStatSnapshot option"
  systemInfo :: string
  inDeviceSection :: bool
  lineNumber :: nat
  expectingCPUStats :: bool

definition currentCPUStats :: "('f, 't) iostat_state \<Rightarrow> 'f CPUStats option" where
  "currentCPUStats st =
     (case ioCurrentSnapshot st of None \<Rightarrow> None | Some s \<Rightarrow> CPUStats s)"

text \<open>
  One pass of the body of the scan loop of \<open>ParseIOStat\<close>, on the text of one line:
  \<open>Inl\<close> is the \<open>return nil, err\<close> that leaves the function.
\<close>

definition iostatLine ::
  "('f, 'c, 't) golib \<Rightarrow> string \<Rightarrow> ('f, 't) iostat_state \<Rightarrow> iostat_error + ('f, 't) iostat_state" where
  "iostatLine lib text st0 =
     (let st = st0\<lparr>lineNumber := lineNumber st0 + 1\<rparr>;
          line = TrimSpace text
      in if line = [] then Inr st
         else if systemInfo st = [] \<and> Contains line ''Linux'' then Inr (st\<lparr>systemInfo := line\<rparr>)
         else if isTimestampLine line then
           (if ioCurrentSnapshot st \<noteq> None \<and> expectingCPUStats st
            then Inl (ExpectedCPUFoundTimestamp (lineNumber st))
            else (case parseIOStatTimestamp lib line of
                    Inl err \<Rightarrow> Inl (FailedToParseTimestampLine (lineNumber st) err)
                  | Inr timestamp \<Rightarrow>
                      Inr (st\<lparr>ioSnapshots :=
                                 (case ioCurrentSnapshot st of
                                    None \<Rightarrow> ioSnapshots st
                                  | Some s \<Rightarrow> ioSnapshots st @ [s]),
                               ioCurrentSnapshot :=
                                 Some \<lparr>IOTimestamp = timestamp, CPUStats = None, Devices = []\<rparr>,
                               inDeviceSection := False,
                               expectingCPUStats := True\<rparr>)))
         else if HasPrefix line ''avg-cpu:'' \<and> ioCurrentSnapshot st \<noteq> None then
           (if \<not> expectingCPUStats st then Inl (UnexpectedCPUHeader (lineNumber st))
            else Inr (st\<lparr>inDeviceSection := False\<rparr>))
         else if expectingCPUStats st \<and> ioCurrentSnapshot st \<noteq> None
                 \<and> currentCPUStats st = None \<and> \<not> HasPrefix line ''Device''
                 \<and> \<not> HasPrefix line ''avg-cpu:'' \<and> \<not> isTimestampLine line then
           (let fields = Fields line
            in if length fields = 6 then
                 (case parseCPUStatsLine lib line of
                    Inl err \<Rightarrow> Inl (FailedToParseCPUStatistics (lineNumber st) err)
                  | Inr cpuStats \<Rightarrow>
                      Inr (st\<lparr>ioCurrentSnapshot :=
                                 map_option (\<lambda>s. s\<lparr>CPUStats := Some cpuStats\<rparr>)
                                   (ioCurrentSnapshot st),
                               expectingCPUStats := False\<rparr>))
               else if length fields > 0 then
                 Inl (ExpectedCPUFields (lineNumber st) (length fields))
               else Inr st)
         else if HasPrefix line ''Device'' then Inr (st\<lparr>inDeviceSection := True\<rparr>)
         else if inDeviceSection st \<and> ioCurrentSnapshot st \<noteq> None then
           (case parseDeviceStatsLine lib line of
              Inl err \<Rightarrow> Inl (FailedToParseDeviceStatistics (lineNumber st) err)
            | Inr deviceStats \<Rightarrow>
                Inr (st\<lparr>ioCurrentSnapshot :=
                           map_option (\<lambda>s. s\<lparr>Devices := Devices s @ [deviceStats]\<rparr>)
                             (ioCurrentSnapshot st)\<rparr>))
         else Inr st)"

text \<open>The scan loop: the lines in order, until one of them returns an error.\<close>

fun iostatLoop ::
  "('f, 'c, 't) golib \<Rightarrow> string list \<Rightarrow> ('f, 't) iostat_state \<Rightarrow> iostat_error + ('f, 't) iostat_state" where
  "iostatLoop lib [] st = Inr st"
| "iostatLoop lib (text # rest) st =
     (case iostatLine lib text st of
        Inl err \<Rightarrow> Inl err
      | Inr st' \<Rightarrow> iostatLoop lib rest st')"

definition iostatInit :: "('f, 't) iostat_state" where
  "iostatInit = \<lparr>ioSnapshots = [], ioCurrentSnapshot = None, systemInfo = [],
                 inDeviceSection = False, lineNumber = 0, expectingCPUStats = False\<rparr>"

text \<open>The code after the loop: \<open>scanner.Err()\<close> is not looked at.\<close>

definition iostatFinish ::
  "('f, 't) iostat_state \<Rightarrow> iostat_error + ('f, 't) IOStatReportData" where
  "iostatFinish st =
     (case ioCurrentSnapshot st of
        None \<Rightarrow> Inr \<lparr>SystemInfo = systemInfo st, IOSnapshots = ioSnapshots st\<rparr>
      | Some s \<Rightarrow>
          if expectingCPUStats st then Inl (ExpectedCPUReachedEOF (lineNumber st))
          else Inr \<lparr>SystemInfo = systemInfo st, IOSnapshots = ioSnapshots st @ [s]\<rparr>)"

definition ParseIOStat ::
  "('f, 'c, 't) golib \<Rightarrow> string \<Rightarrow> iostat_error + ('f, 't) IOStatReportData" where
  "ParseIOStat lib content =
     (if length content = 0 then Inr \<lparr>SystemInfo = [], IOSnapshots = []\<rparr>
      else (case iostatLoop lib (fst (ScanLines content)) iostatInit of
              Inl err \<Rightarrow> Inl err
            | Inr st \<Rightarrow> iostatFinish st))"

section \<open>Sample library functions and inputs\<close>

text \<open>
  The theorems below hold for every choice of the library parameters. To run the
  parsers on concrete text, \<open>sampleLib\<close> gives each parameter a simple value: numbers
  in plain decimal notation as rationals, times written with two digits per part as
  tuples of numbers, and a clock that advances by one second per call.
\<close>

definition decimalFloat :: "string \<Rightarrow> rat option" where
  "decimalFloat s =
     (let neg = (case s of [] \<Rightarrow> False | c # cs \<Rightarrow> c = CHR ''-'');
          body = (case s of [] \<Rightarrow> []
                  | c # cs \<Rightarrow> if c = CHR ''-'' \<or> c = CHR ''+'' then cs else s);
          ip = takeWhile (\<lambda>c. c \<noteq> CHR ''.'') body;
          fp = drop (length ip + 1) body
      in if ip @ fp = [] \<or> \<not> list_all isDigit (ip @ fp) then None
         else (let v = of_int (digitsValue (ip @ fp)) / 10 ^ length fp
               in Some (if neg then - v else v)))"

definition twoDigits :: "string \<Rightarrow> nat option" where
  "twoDigits s = (if length s = 2 \<and> list_all isDigit s then Some (nat (digitsValue s)) else None)"

definition sampleClock :: "string \<Rightarrow> (nat \<times> nat \<times> nat) option" where
  "sampleClock s =
     (case map twoDigits (SplitByte s (CHR '':'')) of
        [Some h, Some m, Some sec] \<Rightarrow>
          if h < 24 \<and> m < 60 \<and> sec < 60 then Some (h, m, sec) else None
      | _ \<Rightarrow> None)"

definition sampleDate :: "string \<Rightarrow> (nat \<times> nat \<times> nat) option" where
  "sampleDate s =
     (case map twoDigits (SplitByte s (CHR ''/'')) of
        [Some mo, Some d, Some y] \<Rightarrow>
          if 1 \<le> mo \<and> mo \<le> 12 \<and> 1 \<le> d \<and> d \<le> 28
          then Some ((if y < 69 then 2000 + y else 1900 + y), mo, d) else None
      | _ \<Rightarrow> None)"

definition sampleDateTime :: "string \<Rightarrow> ((nat \<times> nat \<times> nat) \<times> (nat \<times> nat \<times> nat)) option" where
  "sampleDateTime s =
     (case Fields s of
        [d, c] \<Rightarrow>
          (case (sampleDate d, sampleClock c) of
             (Some day, Some clock) \<Rightarrow> Some (day, clock)
           | _ \<Rightarrow> None)
      | _ \<Rightarrow> None)"

definition sampleLib ::
  "(rat, nat \<times> nat \<times> nat, (nat \<times> nat \<times> nat) \<times> (nat \<times> nat \<times> nat)) golib" where
  "sampleLib =
     \<lparr>ParseFloat = decimalFloat,
      parseClock = sampleClock,
      parseDateTime = sampleDateTime,
      Now = (\<lambda>k. ((2025, 1, 1), (0, 0, k))),
      todayAt = (\<lambda>now c. (fst now, c))\<rparr>"

text \<open>
  A sample library for the detector. \<open>sampleToLower\<close> lowers the letters \<open>A\<close> to \<open>Z\<close>,
  which is what \<open>strings.ToLower\<close> does on ASCII text. The content \<open>PK1\<close> stands for
  a ZIP file with a directory and two files, \<open>PK2\<close> for a ZIP file of two text files,
  \<open>GZ1\<close> for a gzip-wrapped TAR file with a symbolic link, a directory and a regular
  file (read as a plain TAR file the same bytes would list a \<open>jfr\<close> file), \<open>GZ0\<close> for
  a gzip stream that holds no TAR entry, \<open>TAR1\<close> for a plain TAR file with one regular
  file; every other content is no archive.
\<close>

definition sampleToLower :: "string \<Rightarrow> string" where
  "sampleToLower s =
     map (\<lambda>c. if (65::nat) \<le> of_char c \<and> of_char c \<le> (90::nat)
                then char_of (of_char c + (32::nat)) else c) s"

definition sampleDetectorLib :: detector_lib where
  "sampleDetectorLib =
     \<lparr>ToLower = sampleToLower,
      zipNewReader = (\<lambda>content.
        if content = ''PK1'' then
          Some [\<lparr>zip_Name = ''logs.jfr/'', zip_IsDir = True\<rparr>,
                \<lparr>zip_Name = ''logs.jfr/TTOP.txt'', zip_IsDir = False\<rparr>,
                \<lparr>zip_Name = ''logs.jfr/iostat.log'', zip_IsDir = False\<rparr>]
        else if content = ''PK2'' then
          Some [\<lparr>zip_Name = ''file1.txt'', zip_IsDir = False\<rparr>,
                \<lparr>zip_Name = ''file2.txt'', zip_IsDir = False\<rparr>]
        else None),
      gzipTarHeaders = (\<lambda>content.
        if content = ''GZ1'' then
          Some [\<lparr>tar_Name = ''latest.jfr'', tar_Typeflag = CHR ''2''\<rparr>,
                \<lparr>tar_Name = ''ttop/'', tar_Typeflag = CHR ''5''\<rparr>,
                \<lparr>tar_Name = ''ttop/iostat.log'', tar_Typeflag = CHR ''0''\<rparr>]
        else if content = ''GZ0'' then Some []
        else None),
      tarHeaders = (\<lambda>content.
        if content = ''TAR1'' then [\<lparr>tar_Name = ''profile.JFR'', tar_Typeflag = CHR ''0''\<rparr>]
        else if content = ''GZ1'' \<or> content = ''GZ0'' then
          [\<lparr>tar_Name = ''other.jfr'', tar_Typeflag = CHR ''0''\<rparr>]
        else [])\<rparr>"

definition newline :: string where
  "newline = [CHR 0x0A]"

section \<open>Auxiliary notions for stating the properties\<close>

text \<open>
  A line opens a snapshot when its trimmed text begins with \<open>top - \<close>. The snapshot
  that such a line opens, when \<open>k\<close> calls of \<open>time.Now()\<close> came before it:
\<close>

definition isTopHeader :: "string \<Rightarrow> bool" where
  "isTopHeader text = HasPrefix (TrimSpace text) ''top - ''"

definition openSnapshot ::
  "('f, 'c, 't) golib \<Rightarrow> nat \<Rightarrow> string \<Rightarrow> ('f, 't) TTopSnapshot" where
  "openSnapshot lib k text =
     \<lparr>Timestamp = (case parseTimestampFromTopLine lib k (TrimSpace text) of
                      Inl err \<Rightarrow> Now lib k
                    | Inr t \<Rightarrow> t),
      ThreadCounts = None, SystemMemory = None, Threads = []\<rparr>"

text \<open>
  What the loop body of \<open>ParseTTop\<close> does to the open snapshot \<open>s\<close> on a line:
  the body is run on a state whose open snapshot is \<open>s\<close>.
\<close>

definition ttopBodyLine ::
  "('f::zero, 'c, 't) golib \<Rightarrow> string \<Rightarrow> ('f, 't) TTopSnapshot \<Rightarrow> ('f, 't) TTopSnapshot" where
  "ttopBodyLine lib text s =
     (case currentSnapshot
             (ttopLine lib text \<lparr>snapshots = [], currentSnapshot = Some s, nowCalls = 0\<rparr>) of
        None \<Rightarrow> s
      | Some s' \<Rightarrow> s')"

text \<open>
  The blocks of a text, following the words of the specification: each line that
  opens a snapshot, with the lines after it up to the next such line. Lines before
  the first one belong to no block.
\<close>

fun ttopBlocks :: "string list \<Rightarrow> (string \<times> string list) list" where
  "ttopBlocks [] = []"
| "ttopBlocks (l # ls) =
     (if isTopHeader l then (l, takeWhile (\<lambda>x. \<not> isTopHeader x) ls) # ttopBlocks ls
      else ttopBlocks ls)"

definition sampleTTop :: string where
  "sampleTTop =
     ''top - 12:02:03 up  3:07,  0 users,  load average: 3.18, 1.16, 0.41'' @ newline
     @ ''Threads: 262 total,   6 running, 256 sleeping,   0 stopped'' @ newline
     @ ''MiB Mem :  16008.2 total,  10953.7 free,   3713.5 used,   1341.1 buff/cache'' @ newline
     @ ''MiB Swap:      0.0 total,      0.0 free,      0.0 used.  12032.0 avail Mem'' @ newline
     @ newline
     @ ''    PID USER      PR  NI    VIRT    RES    SHR S  %CPU  %MEM     TIME+ COMMAND'' @ newline
     @ ''   1234 dremio    20   0 8000000 500000  30000 R  99.9   3.1   0:12.34 java -jar x'' @ newline
     @ ''   77 root 20 0 1 2'' @ newline
     @ [CHR 0xC2, CHR 0xA0] @ ''top - 25:61:00 up'' @ newline
     @ ''   1235 dremio    20   0 8000000 500000  30000 S   n/a   3.1   0:00.10 sleep 5''"

definition sampleOpenState ::
  "(rat, (nat \<times> nat \<times> nat) \<times> (nat \<times> nat \<times> nat)) ttop_state" where
  "sampleOpenState =
     \<lparr>snapshots = [],
      currentSnapshot = Some \<lparr>Timestamp = ((2025, 1, 1), (12, 2, 3)), ThreadCounts = None,
                               SystemMemory = None, Threads = []\<rparr>,
      nowCalls = 1\<rparr>"

text \<open>
  The lines that may stand between a time stamp and the statistics it announces
  without ending the parse, when the system information read so far is \<open>info\<close>: blank
  lines, a line that is taken as the system information, and the two header lines.
  \<open>skipBetween info lines\<close> is \<open>None\<close> when another line is among \<open>lines\<close>, else the
  system information after them.
\<close>

fun skipBetween :: "string \<Rightarrow> string list \<Rightarrow> string option" where
  "skipBetween info [] = Some info"
| "skipBetween info (text # rest) =
     (let line = TrimSpace text
      in if line = [] then skipBetween info rest
         else if info = [] \<and> Contains line ''Linux'' then skipBetween line rest
         else if (HasPrefix line ''avg-cpu:'' \<or> HasPrefix line ''Device'')
                 \<and> \<not> isTimestampLine line then skipBetween info rest
         else None)"

text \<open>
  A data line, in state \<open>st\<close>: not blank, not taken as the system information, not
  shaped like a time stamp and not one of the two header lines.
\<close>

definition isDataLine :: "('f, 't) iostat_state \<Rightarrow> string \<Rightarrow> bool" where
  "isDataLine st text =
     (let line = TrimSpace text
      in line \<noteq> [] \<and> \<not> (systemInfo st = [] \<and> Contains line ''Linux'')
         \<and> \<not> isTimestampLine line \<and> \<not> HasPrefix line ''avg-cpu:''
         \<and> \<not> HasPrefix line ''Device'')"

text \<open>
  The invariant of the scan loop of \<open>ParseIOStat\<close>: every snapshot appended so far
  has its CPU statistics, and the open snapshot lacks them exactly while
  \<open>expectingCPUStats\<close> is set.
\<close>

definition iostatInv :: "('f, 't) iostat_state \<Rightarrow> bool" where
  "iostatInv st =
     (list_all (\<lambda>s. CPUStats s \<noteq> None) (ioSnapshots st)
      \<and> (case ioCurrentSnapshot st of
            None \<Rightarrow> True
          | Some s \<Rightarrow> expectingCPUStats st = (CPUStats s = None)))"

text \<open>Sample lines of \<open>iostat\<close> output, and a text from lines.\<close>

definition joinLines :: "string list \<Rightarrow> string" where
  "joinLines ls = concat (map (\<lambda>l. l @ newline) ls)"

definition ioSystemLine :: string where
  "ioSystemLine = ''Linux 5.10.0-32-cloud-amd64 (test-system) 09/04/24 _x86_64_ (4 CPU)''"

definition ioTimestamp1 :: string where
  "ioTimestamp1 = ''09/04/24 12:07:20''"

definition ioTimestamp2 :: string where
  "ioTimestamp2 = ''09/04/24 12:07:25''"

definition ioBadTimestamp :: string where
  "ioBadTimestamp = ''13/45/99 12:07:25''"

definition ioCPUHeader :: string where
  "ioCPUHeader = ''avg-cpu:  %user   %nice %system %iowait  %steal   %idle''"

definition ioCPURow :: string where
  "ioCPURow = ''           2.36    0.00    0.40    0.04    0.01   97.20''"

definition ioDeviceHeader :: string where
  "ioDeviceHeader = ''Device  r/s rkB/s rrqm/s %rrqm r_await rareq-sz w/s wkB/s wrqm/s %wrqm w_await wareq-sz d/s dkB/s drqm/s %drqm d_await dareq-sz f/s f_await aqu-sz %util''"

definition ioRowSda :: string where
  "ioRowSda = ''sda  2.08 94.38 0.31 13.07 0.89 45.47 9.58 210.39 5.55 36.68 2.74 21.96 0.09 377.20 0.00 0.00 0.95 4151.86 3.94 0.06 0.03 1.39''"

definition ioRowShort :: string where
  "ioRowShort = ''sdb  1.00 50.00 0.20 10.00 1.00 50.00 5.00 100.00 2.00 20.00 3.00 20.00 0.00 0.00 0.00 0.00 0.00 0.00 2.00 0.05 0.02''"

text \<open>Two lines that are too long for the scanner, and a no-break space.\<close>

definition ioLongBlank :: string where
  "ioLongBlank = replicate 65536 (CHR '' '')"

definition ioLongRow :: string where
  "ioLongRow = replicate 65536 (CHR ''x'')"

definition nbsp :: string where
  "nbsp = [CHR 0xC2, CHR 0xA0]"

text \<open>
  A byte of printable ASCII other than the space. No white space rune starts or ends
  with such a byte.
\<close>

fun ordinaryByte :: "char \<Rightarrow> bool" where
  "ordinaryByte (Char b0 b1 b2 b3 b4 b5 b6 b7)
     = (\<not> b7 \<and> (b6 \<or> (b5 \<and> (b0 \<or> b1 \<or> b2 \<or> b3 \<or> b4))))"

section \<open>Properties of the string functions\<close>

lemma spaceRunes_eq [code]:
  "spaceRunes =
     [[CHR 0x09], [CHR 0x0A], [CHR 0x0B], [CHR 0x0C], [CHR 0x0D], [CHR 0x20],
      [CHR 0xC2, CHR 0x85], [CHR 0xC2, CHR 0xA0], [CHR 0xE1, CHR 0x9A, CHR 0x80],
      [CHR 0xE2, CHR 0x80, CHR 0x80], [CHR 0xE2, CHR 0x80, CHR 0x81],
      [CHR 0xE2, CHR 0x80, CHR 0x82], [CHR 0xE2, CHR 0x80, CHR 0x83],
      [CHR 0xE2, CHR 0x80, CHR 0x84], [CHR 0xE2, CHR 0x80, CHR 0x85],
      [CHR 0xE2, CHR 0x80, CHR 0x86], [CHR 0xE2, CHR 0x80, CHR 0x87],
      [CHR 0xE2, CHR 0x80, CHR 0x88], [CHR 0xE2, CHR 0x80, CHR 0x89],
      [CHR 0xE2, CHR 0x80, CHR 0x8A], [CHR 0xE2, CHR 0x80, CHR 0xA8],
      [CHR 0xE2, CHR 0x80, CHR 0xA9], [CHR 0xE2, CHR 0x80, CHR 0xAF],
      [CHR 0xE2, CHR 0x81, CHR 0x9F], [CHR 0xE3, CHR 0x80, CHR 0x80]]"
  by code_simp

text \<open>The bytes that a white space rune may start with.\<close>

lemma spaceWidth_first:
  assumes "spaceWidth (c # cs) > 0"
  shows "c \<in> set (map hd spaceRunes)"
proof -
  from assms obtain q where f: "find (\<lambda>q. HasPrefix (c # cs) q) spaceRunes = Some q"
    by (auto simp: spaceWidth_def split: option.splits)
  then have q: "q \<in> set spaceRunes" and p: "HasPrefix (c # cs) q"
    by (auto simp: find_Some_iff)
  have "\<forall>q \<in> set spaceRunes. q \<noteq> []"
    by (simp add: spaceRunes_eq)
  with q have "q \<noteq> []" by blast
  with p have "hd q = c"
    by (cases q) (auto simp: HasPrefix_def)
  with q show ?thesis by force
qed

lemma spaceWidth_ordinary:
  "c \<notin> set (map hd spaceRunes) \<Longrightarrow> spaceWidth (c # cs) = 0"
  using spaceWidth_first [of c cs] by auto

text \<open>A text that starts with bytes of that kind starts its first field with them.\<close>

lemma Fields_prefix:
  "p \<noteq> [] \<Longrightarrow> \<forall>c \<in> set p. c \<notin> set (map hd spaceRunes) \<Longrightarrow>
   \<exists>f fs. Fields (p @ rest) = (p @ f) # fs"
proof (induction p)
  case Nil
  then show ?case by simp
next
  case (Cons c p)
  from Cons.prems have c: "spaceWidth (c # p @ rest) = 0"
    by (simp add: spaceWidth_ordinary)
  show ?case
  proof (cases "p = []")
    case True
    show ?thesis
    proof (cases "rest = [] \<or> spaceWidth rest > 0")
      case True
      with \<open>p = []\<close> c show ?thesis by auto
    next
      case False
      with \<open>p = []\<close> c show ?thesis
        by (cases "Fields rest") auto
    qed
  next
    case False
    with Cons obtain f fs where IH: "Fields (p @ rest) = (p @ f) # fs" by auto
    from False obtain d ds where p: "p = d # ds" by (cases p) auto
    with Cons.prems have d: "spaceWidth (p @ rest) = 0"
      by (simp add: spaceWidth_ordinary)
    from False have ne: "p @ rest \<noteq> []" by simp
    from c d ne IH show ?thesis by simp
  qed
qed

text \<open>
  Equations for evaluating \<open>spaceWidth\<close> and \<open>spaceWidthLast\<close> that look at one byte
  first.
\<close>

lemma ordinaryByte_first: "ordinaryByte c \<Longrightarrow> c \<notin> set (map hd spaceRunes)"
  by (cases c) (auto simp: spaceRunes_eq)

lemma ordinaryByte_last: "ordinaryByte c \<Longrightarrow> c \<notin> set (map last spaceRunes)"
  by (cases c) (auto simp: spaceRunes_eq)

lemma spaceWidth_code [code]:
  "spaceWidth [] = 0"
  "spaceWidth (c # cs) =
     (if ordinaryByte c then 0
      else (case find (\<lambda>q. HasPrefix (c # cs) q) spaceRunes of
              None \<Rightarrow> 0
            | Some q \<Rightarrow> length q))"
proof -
  show "spaceWidth [] = 0"
    by (simp add: spaceWidth_def spaceRunes_eq HasPrefix_def)
  show "spaceWidth (c # cs) =
     (if ordinaryByte c then 0
      else (case find (\<lambda>q. HasPrefix (c # cs) q) spaceRunes of
              None \<Rightarrow> 0
            | Some q \<Rightarrow> length q))"
    using spaceWidth_ordinary [OF ordinaryByte_first, of c cs]
    by (simp add: spaceWidth_def)
qed

lemma spaceWidthLast_code [code]:
  "spaceWidthLast s =
     (if s = [] then 0
      else if ordinaryByte (last s) then 0
      else (case find (\<lambda>q. HasPrefix (rev s) (rev q)) spaceRunes of
              None \<Rightarrow> 0
            | Some q \<Rightarrow> length q))"
proof (cases "s = []")
  case True
  then show ?thesis
    by (simp add: spaceWidthLast_def spaceRunes_eq HasPrefix_def)
next
  case ne: False
  show ?thesis
  proof (cases "ordinaryByte (last s)")
    case False
    with ne show ?thesis by (simp add: spaceWidthLast_def)
  next
    case True
    have "find (\<lambda>q. HasPrefix (rev s) (rev q)) spaceRunes = None"
    proof (rule ccontr)
      assume "find (\<lambda>q. HasPrefix (rev s) (rev q)) spaceRunes \<noteq> None"
      then obtain q where q: "q \<in> set spaceRunes" and p: "HasPrefix (rev s) (rev q)"
        by (auto simp: find_None_iff)
      have "\<forall>q \<in> set spaceRunes. q \<noteq> []"
        by (simp add: spaceRunes_eq)
      with q have qn: "q \<noteq> []" by blast
      from p have "take (length q) (rev s) = rev q"
        by (simp add: HasPrefix_def)
      then have "hd (take (length q) (rev s)) = hd (rev q)" by simp
      with qn ne have "last s = last q"
        by (simp add: hd_rev)
      with q have "last s \<in> set (map last spaceRunes)" by force
      with ordinaryByte_last [OF True] show False by simp
    qed
    with ne True show ?thesis by (simp add: spaceWidthLast_def)
  qed
qed

text \<open>
  A no-break space and a line separator are white space; a byte that is only the tail
  of an encoding, or an encoding cut short, is not.
\<close>

lemma white_space_examples:
  "TrimSpace (nbsp @ ''top - x'' @ [CHR 0xE2, CHR 0x80, CHR 0xA8]) = ''top - x''
   \<and> Fields (''a'' @ nbsp @ ''b'' @ [CHR 0xC2, CHR 0x85] @ ''c'') = [''a'', ''b'', ''c'']
   \<and> TrimSpace [CHR 0xA0] = [CHR 0xA0]
   \<and> Fields (''a'' @ [CHR 0xE2, CHR 0x80] @ '' b'') = [''a'' @ [CHR 0xE2, CHR 0x80], ''b'']"
  by code_simp

section \<open>Properties of the detector\<close>

lemma countFile_step:
  "countFile lib f (a, b, c) =
     (case detectFileTypeByName lib f of
        FileTypeJFR \<Rightarrow> (a + 1, b, c)
      | FileTypeTTop \<Rightarrow> (a, b + 1, c)
      | FileTypeIOStat \<Rightarrow> (a, b, c + 1)
      | _ \<Rightarrow> (a, b, c))"
  by (simp add: countFile_def)

lemma fold_countFile:
  "fold (countFile lib) files (a, b, c) =
     (a + length (filter (\<lambda>f. detectFileTypeByName lib f = FileTypeJFR) files),
      b + length (filter (\<lambda>f. detectFileTypeByName lib f = FileTypeTTop) files),
      c + length (filter (\<lambda>f. detectFileTypeByName lib f = FileTypeIOStat) files))"
proof (induction files arbitrary: a b c)
  case Nil
  show ?case by simp
next
  case (Cons f fs)
  show ?case
    by (cases "detectFileTypeByName lib f") (simp_all add: Cons.IH countFile_step)
qed

lemma analyzeFileList_priority:
  "analyzeFileList lib files =
     (if (\<exists>f \<in> set files. detectFileTypeByName lib f = FileTypeJFR) then FileTypeJFR
      else if (\<exists>f \<in> set files. detectFileTypeByName lib f = FileTypeTTop) then FileTypeTTop
      else if (\<exists>f \<in> set files. detectFileTypeByName lib f = FileTypeIOStat) then FileTypeIOStat
      else FileTypeArchive)"
  unfolding analyzeFileList_def fold_countFile
  by (simp add: filter_empty_conv)

lemma detectFileTypeByName_JFR:
  "detectFileTypeByName lib n = FileTypeJFR \<longleftrightarrow> ToLower lib (Ext n) = ''.jfr''"
  by (simp add: detectFileTypeByName_def Let_def)

lemma detectFileTypeByName_TTop:
  "detectFileTypeByName lib n = FileTypeTTop \<longleftrightarrow>
     ToLower lib (Ext n) \<noteq> ''.jfr''
     \<and> Contains (ToLower lib (Base n)) ''ttop''
     \<and> (ToLower lib (Ext n) = ''.txt'' \<or> ToLower lib (Ext n) = '''')"
  by (simp add: detectFileTypeByName_def Let_def)

lemma detectFileTypeByName_IOStat:
  "detectFileTypeByName lib n = FileTypeIOStat \<longleftrightarrow>
     ToLower lib (Ext n) \<noteq> ''.jfr''
     \<and> \<not> (Contains (ToLower lib (Base n)) ''ttop''
          \<and> (ToLower lib (Ext n) = ''.txt'' \<or> ToLower lib (Ext n) = ''''))
     \<and> Contains (ToLower lib (Base n)) ''iostat''"
  by (simp add: detectFileTypeByName_def Let_def)

text \<open>The priority of \<open>analyzeFileList\<close>, with the three rules for a name written out.\<close>

lemma analyzeFileList_rules:
  "analyzeFileList lib files =
     (if (\<exists>n \<in> set files. ToLower lib (Ext n) = ''.jfr'') then FileTypeJFR
      else if (\<exists>n \<in> set files. Contains (ToLower lib (Base n)) ''ttop''
                 \<and> (ToLower lib (Ext n) = ''.txt'' \<or> ToLower lib (Ext n) = ''''))
        then FileTypeTTop
      else if (\<exists>n \<in> set files. Contains (ToLower lib (Base n)) ''iostat'') then FileTypeIOStat
      else FileTypeArchive)"
proof (cases "\<exists>n \<in> set files. ToLower lib (Ext n) = ''.jfr''")
  case True
  then show ?thesis
    by (simp add: analyzeFileList_priority detectFileTypeByName_JFR)
next
  case nj: False
  show ?thesis
  proof (cases "\<exists>n \<in> set files. Contains (ToLower lib (Base n)) ''ttop''
                  \<and> (ToLower lib (Ext n) = ''.txt'' \<or> ToLower lib (Ext n) = '''')")
    case True
    with nj have "\<exists>n \<in> set files. detectFileTypeByName lib n = FileTypeTTop"
      unfolding detectFileTypeByName_TTop by blast
    with nj True show ?thesis
      by (simp add: analyzeFileList_priority detectFileTypeByName_JFR)
  next
    case nt: False
    then have t: "\<not> (\<exists>n \<in> set files. detectFileTypeByName lib n = FileTypeTTop)"
      unfolding detectFileTypeByName_TTop by blast
    have i: "(\<exists>n \<in> set files. detectFileTypeByName lib n = FileTypeIOStat)
               \<longleftrightarrow> (\<exists>n \<in> set files. Contains (ToLower lib (Base n)) ''iostat'')"
      using nj nt unfolding detectFileTypeByName_IOStat by blast
    have j: "\<not> (\<exists>n \<in> set files. detectFileTypeByName lib n = FileTypeJFR)"
      using nj unfolding detectFileTypeByName_JFR by blast
    show ?thesis
      unfolding analyzeFileList_priority using nj nt t i j by simp
  qed
qed

lemma analyzeFileList_Nil: "analyzeFileList lib [] = FileTypeArchive"
  by (simp add: analyzeFileList_priority)

lemma extractTarFileList_headers:
  "extractTarFileList lib content =
     map tar_Name
       (filter (\<lambda>h. tar_Typeflag h = CHR ''0'')
          (case gzipTarHeaders lib content of
             Some headers \<Rightarrow> headers
           | None \<Rightarrow> tarHeaders lib content))"
  by (simp add: extractTarFileList_def readTarFiles_def TypeReg_def split: option.splits)

text \<open>
  Claim C1. For a file name whose lower-cased extension is one of \<open>.zip\<close>, \<open>.tar\<close>,
  \<open>.tar.gz\<close>, \<open>.tgz\<close>, \<open>.gz\<close>, the result depends on the content only through the names
  of the regular entries that the archive readers list. These are the entries of the
  ZIP directory that are no directories; when there is none (the content is no ZIP
  file, or it has no such entry) they are the entries of type \<open>0\<close> (regular file) of
  the gzip-wrapped TAR stream when the content has a gzip header, and of the plain
  TAR stream only when it has none. The result is \<open>jfr\<close> when the lower-cased
  extension of some name is \<open>.jfr\<close>; else \<open>ttop\<close> when the lower-cased base of some
  name contains \<open>ttop\<close> and its extension is \<open>.txt\<close> or empty; else \<open>iostat\<close> when the
  lower-cased base of some name contains \<open>iostat\<close>; else \<open>archive\<close>, which covers the
  content that no reader can read. It is never \<open>unknown\<close>. The readers hand over names
  and flags only, so the content of a member never reaches the detector.
\<close>

theorem DetectFileType_archive:
  assumes "ToLower lib (Ext filename) \<in> {''.zip'', ''.tar'', ''.tar.gz'', ''.tgz'', ''.gz''}"
  shows "DetectFileType lib filename content =
           (let zipNames =
                  (case zipNewReader lib content of
                     None \<Rightarrow> []
                   | Some files \<Rightarrow> map zip_Name (filter (\<lambda>f. \<not> zip_IsDir f) files));
                tarNames =
                  map tar_Name
                    (filter (\<lambda>h. tar_Typeflag h = CHR ''0'')
                       (case gzipTarHeaders lib content of
                          Some headers \<Rightarrow> headers
                        | None \<Rightarrow> tarHeaders lib content));
                names = (if zipNames \<noteq> [] then zipNames else tarNames);
                ext = (\<lambda>n. ToLower lib (Ext n));
                base = (\<lambda>n. ToLower lib (Base n))
            in if (\<exists>n \<in> set names. ext n = ''.jfr'') then FileTypeJFR
               else if (\<exists>n \<in> set names. Contains (base n) ''ttop''
                          \<and> (ext n = ''.txt'' \<or> ext n = ''''))
                 then FileTypeTTop
               else if (\<exists>n \<in> set names. Contains (base n) ''iostat'') then FileTypeIOStat
               else FileTypeArchive)
         \<and> DetectFileType lib filename content \<noteq> FileTypeUnknown"
proof -
  let ?zip = "case zipNewReader lib content of
                None \<Rightarrow> []
              | Some files \<Rightarrow> map zip_Name (filter (\<lambda>f. \<not> zip_IsDir f) files)"
  let ?tar = "map tar_Name
                (filter (\<lambda>h. tar_Typeflag h = CHR ''0'')
                   (case gzipTarHeaders lib content of
                      Some headers \<Rightarrow> headers
                    | None \<Rightarrow> tarHeaders lib content))"
  have ar: "isArchive (ToLower lib (Ext filename))"
    using assms by (auto simp: isArchive_def)
  have d: "DetectFileType lib filename content = detectArchiveContent lib content"
    using ar by (simp add: DetectFileType_def)
  have z: "extractZipFileList lib content = ?zip"
    by (simp add: extractZipFileList_def)
  have t: "extractTarFileList lib content = ?tar"
    by (rule extractTarFileList_headers)
  have a: "detectArchiveContent lib content
             = analyzeFileList lib (if ?zip \<noteq> [] then ?zip else ?tar)"
    unfolding detectArchiveContent_def z t
    by (simp add: Let_def analyzeFileList_Nil)
  show ?thesis
    unfolding d a analyzeFileList_rules Let_def by simp
qed

theorem DetectFileType_archive_witness:
  "DetectFileType sampleDetectorLib ''bundle.ZIP'' ''PK1'' = FileTypeTTop
   \<and> DetectFileType sampleDetectorLib ''bundle.ZIP'' ''PK2'' = FileTypeArchive
   \<and> DetectFileType sampleDetectorLib ''logs.tar.gz'' ''GZ1'' = FileTypeIOStat
   \<and> DetectFileType sampleDetectorLib ''logs.tar.gz'' ''GZ0'' = FileTypeArchive
   \<and> DetectFileType sampleDetectorLib ''logs.tar'' ''TAR1'' = FileTypeJFR
   \<and> DetectFileType sampleDetectorLib ''logs.tgz'' ''no archive'' = FileTypeArchive"
proof -
  have z: "ToLower sampleDetectorLib (Ext ''bundle.ZIP'')
             \<in> {''.zip'', ''.tar'', ''.tar.gz'', ''.tgz'', ''.gz''}"
    by code_simp
  have g: "ToLower sampleDetectorLib (Ext ''logs.tar.gz'')
             \<in> {''.zip'', ''.tar'', ''.tar.gz'', ''.tgz'', ''.gz''}"
    by code_simp
  have t: "ToLower sampleDetectorLib (Ext ''logs.tar'')
             \<in> {''.zip'', ''.tar'', ''.tar.gz'', ''.tgz'', ''.gz''}"
    by code_simp
  have y: "ToLower sampleDetectorLib (Ext ''logs.tgz'')
             \<in> {''.zip'', ''.tar'', ''.tar.gz'', ''.tgz'', ''.gz''}"
    by code_simp
  have 1: "DetectFileType sampleDetectorLib ''bundle.ZIP'' ''PK1'' = FileTypeTTop"
    by (subst conjunct1 [OF DetectFileType_archive [OF z]]) code_simp
  have 2: "DetectFileType sampleDetectorLib ''bundle.ZIP'' ''PK2'' = FileTypeArchive"
    by (subst conjunct1 [OF DetectFileType_archive [OF z]]) code_simp
  have 3: "DetectFileType sampleDetectorLib ''logs.tar.gz'' ''GZ1'' = FileTypeIOStat"
    by (subst conjunct1 [OF DetectFileType_archive [OF g]]) code_simp
  have 4: "DetectFileType sampleDetectorLib ''logs.tar.gz'' ''GZ0'' = FileTypeArchive"
    by (subst conjunct1 [OF DetectFileType_archive [OF g]]) code_simp
  have 5: "DetectFileType sampleDetectorLib ''logs.tar'' ''TAR1'' = FileTypeJFR"
    by (subst conjunct1 [OF DetectFileType_archive [OF t]]) code_simp
  have 6: "DetectFileType sampleDetectorLib ''logs.tgz'' ''no archive'' = FileTypeArchive"
    by (subst conjunct1 [OF DetectFileType_archive [OF y]]) code_simp
  from 1 2 3 4 5 6 show ?thesis by (intro conjI)
qed

text \<open>
  Claim C2. For a file name whose lower-cased extension is none of the archive
  extensions and content that is not empty: the result is \<open>ttop\<close> when the first 1000
  bytes contain \<open>PID\<close>, \<open>USER\<close> and one of \<open>TIME\<close>, \<open>%CPU\<close>, whatever the name; else
  \<open>iostat\<close> when they contain \<open>Device\<close> and one of \<open>tps\<close>, \<open>kB_read/s\<close>, \<open>r/s\<close>; else the
  file-name rule decides: extension \<open>.jfr\<close> gives \<open>jfr\<close>, a lower-cased base name that
  contains \<open>ttop\<close> with extension \<open>.txt\<close> or none gives \<open>ttop\<close>, a lower-cased base name
  that contains \<open>iostat\<close> gives \<open>iostat\<close>, and everything else is \<open>unknown\<close>.
\<close>

theorem DetectFileType_content_first:
  assumes "ToLower lib (Ext filename) \<notin> {''.zip'', ''.tar'', ''.tar.gz'', ''.tgz'', ''.gz''}"
    and "content \<noteq> []"
  shows "DetectFileType lib filename content =
           (let head = take 1000 content;
                ext = ToLower lib (Ext filename);
                baseName = ToLower lib (Base filename)
            in if Contains head ''PID'' \<and> Contains head ''USER''
                  \<and> (Contains head ''TIME'' \<or> Contains head ''%CPU'') then FileTypeTTop
               else if Contains head ''Device''
                  \<and> (Contains head ''tps'' \<or> Contains head ''kB_read/s'' \<or> Contains head ''r/s'')
                 then FileTypeIOStat
               else if ext = ''.jfr'' then FileTypeJFR
               else if Contains baseName ''ttop'' \<and> (ext = ''.txt'' \<or> ext = '''') then FileTypeTTop
               else if Contains baseName ''iostat'' then FileTypeIOStat
               else FileTypeUnknown)"
proof -
  have t: "take (min 1000 (length content)) content = take 1000 content"
    by (simp add: min_def)
  have a: "isArchive (ToLower lib (Ext filename)) = False"
    using assms(1) by (auto simp: isArchive_def)
  have l: "(0 < length content) = True"
    using assms(2) by simp
  show ?thesis
    unfolding DetectFileType_def isTTopFile_def isIOStatFile_def Let_def t a l
    by (simp only: if_False simp_thms)
qed

theorem DetectFileType_content_first_witness:
  "DetectFileType sampleDetectorLib ''x.txt'' ''  PID USER  PR  NI  %CPU'' = FileTypeTTop
   \<and> DetectFileType sampleDetectorLib ''x.txt'' ''Device  tps'' = FileTypeIOStat
   \<and> DetectFileType sampleDetectorLib ''Profile.JFR'' ''FLR'' = FileTypeJFR
   \<and> DetectFileType sampleDetectorLib ''notes.txt'' ''hello'' = FileTypeUnknown"
proof -
  have x: "ToLower sampleDetectorLib (Ext ''x.txt'')
             \<notin> {''.zip'', ''.tar'', ''.tar.gz'', ''.tgz'', ''.gz''}"
    by code_simp
  have j: "ToLower sampleDetectorLib (Ext ''Profile.JFR'')
             \<notin> {''.zip'', ''.tar'', ''.tar.gz'', ''.tgz'', ''.gz''}"
    by code_simp
  have n: "ToLower sampleDetectorLib (Ext ''notes.txt'')
             \<notin> {''.zip'', ''.tar'', ''.tar.gz'', ''.tgz'', ''.gz''}"
    by code_simp
  have c: "''  PID USER  PR  NI  %CPU'' \<noteq> []" "''Device  tps'' \<noteq> []" "''FLR'' \<noteq> []"
          "''hello'' \<noteq> []"
    by simp_all
  have 1: "DetectFileType sampleDetectorLib ''x.txt'' ''  PID USER  PR  NI  %CPU'' = FileTypeTTop"
    by (subst DetectFileType_content_first [OF x c(1)]) code_simp
  have 2: "DetectFileType sampleDetectorLib ''x.txt'' ''Device  tps'' = FileTypeIOStat"
    by (subst DetectFileType_content_first [OF x c(2)]) code_simp
  have 3: "DetectFileType sampleDetectorLib ''Profile.JFR'' ''FLR'' = FileTypeJFR"
    by (subst DetectFileType_content_first [OF j c(3)]) code_simp
  have 4: "DetectFileType sampleDetectorLib ''notes.txt'' ''hello'' = FileTypeUnknown"
    by (subst DetectFileType_content_first [OF n c(4)]) code_simp
  from 1 2 3 4 show ?thesis by (intro conjI)
qed

section \<open>Properties of the line scanner and of the TTop parser\<close>

lemma rawLines_single: "s \<noteq> [] \<Longrightarrow> CHR 0x0A \<notin> set s \<Longrightarrow> rawLines s = [s]"
proof (induction s)
  case Nil
  then show ?case by simp
next
  case (Cons c s)
  show ?case
  proof (cases "s = []")
    case True
    with Cons.prems show ?thesis by simp
  next
    case False
    with Cons have "rawLines s = [s]" by simp
    with Cons.prems show ?thesis by auto
  qed
qed

lemma ScanLines_fault:
  "snd (ScanLines content) \<longleftrightarrow> (\<exists>l \<in> set (rawLines content). MaxScanTokenSize \<le> int (length l))"
  by (auto simp: ScanLines_def fitsBuffer_def list_ex_iff not_less)

lemma ScanLines_all:
  "\<not> snd (ScanLines content) \<Longrightarrow> fst (ScanLines content) = map dropCR (rawLines content)"
proof -
  assume "\<not> snd (ScanLines content)"
  then have "\<forall>l \<in> set (rawLines content). fitsBuffer l"
    by (simp add: ScanLines_def list_ex_iff)
  then have tw: "takeWhile fitsBuffer (rawLines content) = rawLines content"
    by (simp add: takeWhile_eq_all_conv)
  show ?thesis by (simp only: ScanLines_def fst_conv tw)
qed

lemma ParseTTop_cases:
  "ParseTTop lib content =
     (if content = [] then Inr \<lparr>Snapshots = []\<rparr>
      else if snd (ScanLines content) then Inl ErrorReadingContent
      else Inr \<lparr>Snapshots = ttopFinish (fold (ttopLine lib) (fst (ScanLines content))
                    \<lparr>snapshots = [], currentSnapshot = None, nowCalls = 0\<rparr>)\<rparr>)"
  by (simp add: ParseTTop_def Let_def split: prod.splits)

lemma ScanLines_Nil: "ScanLines [] = ([], False)"
  by (simp add: ScanLines_def)

text \<open>
  Claim C7, as the code has it. \<open>ParseTTop\<close> has one error, that of the line scanner,
  and returns it exactly when a line of the input does not fit the scanner's buffer
  of \<open>MaxScanTokenSize\<close> bytes. For every other input, whatever its lines contain, it
  returns report data: a time stamp, a \<open>Threads:\<close> line, a memory or swap line or a
  thread row that cannot be parsed never becomes an error. The empty input gives
  the empty list of snapshots.
\<close>

theorem ParseTTop_error_iff:
  "(ParseTTop lib content = Inl ErrorReadingContent
      \<longleftrightarrow> (\<exists>l \<in> set (rawLines content). MaxScanTokenSize \<le> int (length l)))
   \<and> (\<forall>e. ParseTTop lib content = Inl e \<longrightarrow> e = ErrorReadingContent)
   \<and> ((\<forall>l \<in> set (rawLines content). int (length l) < MaxScanTokenSize)
        \<longrightarrow> (\<exists>d. ParseTTop lib content = Inr d))
   \<and> ParseTTop lib [] = Inr \<lparr>Snapshots = []\<rparr>"
proof -
  have f: "(\<exists>l \<in> set (rawLines content). MaxScanTokenSize \<le> int (length l)) \<longleftrightarrow> snd (ScanLines content)"
    by (simp add: ScanLines_fault)
  have g: "(\<forall>l \<in> set (rawLines content). int (length l) < MaxScanTokenSize) \<longleftrightarrow> \<not> snd (ScanLines content)"
    by (auto simp: ScanLines_fault not_le)
  have e: "content = [] \<Longrightarrow> \<not> snd (ScanLines content)"
    by (simp add: ScanLines_Nil)
  show ?thesis
    unfolding f g ParseTTop_cases
    using e by auto
qed

text \<open>
  The claim that every input is parsed without error fails on a line of 65536 bytes:
  the scanner stops with \<open>ErrTooLong\<close> and \<open>ParseTTop\<close> returns the error.
\<close>

theorem ParseTTop_long_line_counterexample:
  "ParseTTop sampleLib (replicate 65536 (CHR ''a'')) = Inl ErrorReadingContent"
proof -
  have n: "replicate 65536 (CHR ''a'') \<noteq> []"
    by (simp only: replicate_empty; simp)
  have m: "CHR 0x0A \<notin> set (replicate 65536 (CHR ''a''))"
    by (simp only: set_replicate_conv_if; simp)
  have r: "rawLines (replicate 65536 (CHR ''a'')) = [replicate 65536 (CHR ''a'')]"
    by (rule rawLines_single [OF n m])
  have s: "snd (ScanLines (replicate 65536 (CHR ''a'')))"
    unfolding ScanLines_fault r by (simp only: list.set bex_simps length_replicate MaxScanTokenSize_def; simp)
  show ?thesis
    unfolding ParseTTop_cases using n s by (simp only: if_False if_True)
qed

theorem ParseTTop_error_iff_witness:
  "list_all (\<lambda>l. int (length l) < MaxScanTokenSize) (rawLines sampleTTop)
   \<and> (\<exists>d. ParseTTop sampleLib sampleTTop = Inr d)"
proof -
  have h: "\<forall>l \<in> set (rawLines sampleTTop). int (length l) < MaxScanTokenSize"
    by code_simp
  from ParseTTop_error_iff [of sampleLib sampleTTop] h show ?thesis
    unfolding list_all_iff by blast
qed

text \<open>
  Claim C8. While a snapshot is open, a trimmed line that is not blank and has none of
  the prefixes \<open>top - \<close>, \<open>Threads:\<close>, \<open>MiB Mem\<close>, \<open>MiB Swap\<close> is treated as a thread
  row: with fewer than 12 fields, or with a first field that \<open>Atoi\<close> rejects, the state
  is unchanged; otherwise one \<open>ThreadInfo\<close> is appended to the threads of the open
  snapshot, with \<open>PID\<close> from field 0, \<open>User\<close> from field 1, \<open>CPU\<close> from field 8 and \<open>MEM\<close>
  from field 9 (zero when \<open>ParseFloat\<close> rejects the field) and \<open>Command\<close> the fields
  from 11 on joined by single spaces.
\<close>

theorem ttopLine_thread_row:
  assumes "currentSnapshot st = Some s"
    and "line = TrimSpace text" and "line \<noteq> []"
    and "\<not> HasPrefix line ''top - ''" and "\<not> HasPrefix line ''Threads:''"
    and "\<not> HasPrefix line ''MiB Mem''" and "\<not> HasPrefix line ''MiB Swap''"
  shows "ttopLine lib text st =
           (let fields = Fields line
            in if length fields < 12 then st
               else (case Atoi (fields ! 0) of
                       None \<Rightarrow> st
                     | Some pid \<Rightarrow>
                         st\<lparr>currentSnapshot := Some (s\<lparr>Threads := Threads s @
                              [\<lparr>PID = pid,
                                User = fields ! 1,
                                CPU = (case ParseFloat lib (fields ! 8) of
                                         None \<Rightarrow> 0 | Some v \<Rightarrow> v),
                                MEM = (case ParseFloat lib (fields ! 9) of
                                         None \<Rightarrow> 0 | Some v \<Rightarrow> v),
                                Command = Join (drop 11 fields) '' ''\<rparr>]\<rparr>)\<rparr>))"
proof -
  have "ttopLine lib text st =
          (case parseThreadLine lib line of
             Inl err \<Rightarrow> st
           | Inr threadInfo \<Rightarrow> onCurrent (\<lambda>s. s\<lparr>Threads := Threads s @ [threadInfo]\<rparr>) st)"
    using assms by (simp add: ttopLine_def Let_def)
  then show ?thesis
    using assms(1)
    by (simp add: parseThreadLine_def onCurrent_def Let_def split: option.splits)
qed

theorem ttopLine_thread_row_witness:
  "ttopLine sampleLib
     (''   1235 dremio    20   0 8000000 500000  30000 S   n/a   3.1   0:00.10'' @ nbsp @ ''sleep 5'')
     sampleOpenState
   = sampleOpenState\<lparr>currentSnapshot :=
       Some \<lparr>Timestamp = ((2025, 1, 1), (12, 2, 3)), ThreadCounts = None, SystemMemory = None,
             Threads = [\<lparr>PID = 1235, User = ''dremio'', CPU = 0, MEM = 31 / 10,
                         Command = ''sleep 5''\<rparr>]\<rparr>\<rparr>
   \<and> ttopLine sampleLib ''   77 root 20 0 1 2'' sampleOpenState = sampleOpenState"
proof -
  let ?s = "\<lparr>Timestamp = ((2025, 1, 1), (12::nat, 2::nat, 3::nat)), ThreadCounts = None,
             SystemMemory = None, Threads = ([] :: rat ThreadInfo list)\<rparr>"
  let ?l1 = "''1235 dremio    20   0 8000000 500000  30000 S   n/a   3.1   0:00.10'' @ nbsp @ ''sleep 5''"
  let ?t1 = "''   1235 dremio    20   0 8000000 500000  30000 S   n/a   3.1   0:00.10'' @ nbsp @ ''sleep 5''"
  let ?l2 = "''77 root 20 0 1 2''"
  let ?t2 = "''   77 root 20 0 1 2''"
  have c: "currentSnapshot sampleOpenState = Some ?s"
    by (simp add: sampleOpenState_def)
  have t1: "?l1 = TrimSpace ?t1" and t2: "?l2 = TrimSpace ?t2" by code_simp+
  have n: "?l1 \<noteq> []" "?l2 \<noteq> []" by simp_all
  have p1: "\<not> HasPrefix ?l1 ''top - ''" "\<not> HasPrefix ?l1 ''Threads:''"
           "\<not> HasPrefix ?l1 ''MiB Mem''" "\<not> HasPrefix ?l1 ''MiB Swap''"
    by code_simp+
  have p2: "\<not> HasPrefix ?l2 ''top - ''" "\<not> HasPrefix ?l2 ''Threads:''"
           "\<not> HasPrefix ?l2 ''MiB Mem''" "\<not> HasPrefix ?l2 ''MiB Swap''"
    by code_simp+
  have f1: "Fields ?l1 = [''1235'', ''dremio'', ''20'', ''0'', ''8000000'', ''500000'', ''30000'',
                          ''S'', ''n/a'', ''3.1'', ''0:00.10'', ''sleep'', ''5'']"
    by code_simp
  have f2: "Fields ?l2 = [''77'', ''root'', ''20'', ''0'', ''1'', ''2'']"
    by code_simp
  have a: "Atoi ''1235'' = Some 1235" by code_simp
  have x: "ParseFloat sampleLib ''n/a'' = None" by code_simp
  have y: "ParseFloat sampleLib ''3.1'' = Some (31 / 10)" by code_simp
  from ttopLine_thread_row [OF c t1 n(1) p1, of sampleLib]
       ttopLine_thread_row [OF c t2 n(2) p2, of sampleLib]
  show ?thesis
    unfolding f1 f2 by (simp add: a x y)
qed

lemma ttopLine_header:
  "isTopHeader text \<Longrightarrow>
   ttopLine lib text st =
     st\<lparr>snapshots := (case currentSnapshot st of None \<Rightarrow> snapshots st
                        | Some s \<Rightarrow> snapshots st @ [s]),
        currentSnapshot := Some (openSnapshot lib (nowCalls st) text),
        nowCalls := nowCalls st + 1\<rparr>"
proof -
  assume h: "isTopHeader text"
  then have "TrimSpace text \<noteq> []"
    by (auto simp: isTopHeader_def HasPrefix_def)
  with h show ?thesis
    by (simp add: ttopLine_def isTopHeader_def openSnapshot_def Let_def)
qed

lemma ttopLine_other_closed:
  "\<not> isTopHeader text \<Longrightarrow> currentSnapshot st = None \<Longrightarrow> ttopLine lib text st = st"
  by (simp add: ttopLine_def isTopHeader_def Let_def)

lemma ttopLine_other_open:
  assumes "\<not> isTopHeader text" and "currentSnapshot st = Some s"
  shows "ttopLine lib text st = st\<lparr>currentSnapshot := Some (ttopBodyLine lib text s)\<rparr>"
proof -
  have "\<exists>f. (\<forall>st'. currentSnapshot st' \<noteq> None \<longrightarrow> ttopLine lib text st' = onCurrent f st')"
  proof -
    let ?line = "TrimSpace text"
    have id: "\<And>st'. onCurrent (\<lambda>s. s) st' = st'"
      by (simp add: onCurrent_def split: option.splits)
    show ?thesis
    proof (cases "?line = []")
      case True
      then have "\<forall>st'. currentSnapshot st' \<noteq> None \<longrightarrow> ttopLine lib text st' = onCurrent (\<lambda>s. s) st'"
        by (simp add: ttopLine_def id)
      then show ?thesis by blast
    next
      case ne: False
      from assms(1) have nh: "\<not> HasPrefix ?line ''top - ''" by (simp add: isTopHeader_def)
      show ?thesis
      proof (cases "HasPrefix ?line ''Threads:''")
        case True
        show ?thesis
        proof (cases "parseThreadCountsLine ?line")
          case (Inl e)
          with True ne nh
          have "\<forall>st'. currentSnapshot st' \<noteq> None \<longrightarrow> ttopLine lib text st' = onCurrent (\<lambda>s. s) st'"
            by (simp add: ttopLine_def id Let_def)
          then show ?thesis by blast
        next
          case (Inr tc)
          with True ne nh
          have "\<forall>st'. currentSnapshot st' \<noteq> None \<longrightarrow>
                  ttopLine lib text st' = onCurrent (\<lambda>s. s\<lparr>ThreadCounts := Some tc\<rparr>) st'"
            by (simp add: ttopLine_def Let_def)
          then show ?thesis by blast
        qed
      next
        case nt: False
        show ?thesis
        proof (cases "HasPrefix ?line ''MiB Mem''")
          case True
          with nt ne nh show ?thesis
            by (intro exI[of _ "\<lambda>s. s\<lparr>SystemMemory := Some (snd (parseMemoryLine lib ?line (memoryOf s)))\<rparr>"])
               (simp add: ttopLine_def Let_def)
        next
          case nm: False
          show ?thesis
          proof (cases "HasPrefix ?line ''MiB Swap''")
            case True
            with nm nt ne nh show ?thesis
              by (intro exI[of _ "\<lambda>s. s\<lparr>SystemMemory := Some (snd (parseSwapLine lib ?line (memoryOf s)))\<rparr>"])
                 (simp add: ttopLine_def Let_def)
          next
            case ns: False
            show ?thesis
            proof (cases "parseThreadLine lib ?line")
              case (Inl e)
              with ns nm nt ne nh
              have "\<forall>st'. currentSnapshot st' \<noteq> None \<longrightarrow> ttopLine lib text st' = onCurrent (\<lambda>s. s) st'"
                by (simp add: ttopLine_def id Let_def)
              then show ?thesis by blast
            next
              case (Inr ti)
              with ns nm nt ne nh show ?thesis
                by (intro exI[of _ "\<lambda>s. s\<lparr>Threads := Threads s @ [ti]\<rparr>"])
                   (simp add: ttopLine_def Let_def)
            qed
          qed
        qed
      qed
    qed
  qed
  then obtain f where f: "\<And>st'. currentSnapshot st' \<noteq> None \<Longrightarrow> ttopLine lib text st' = onCurrent f st'"
    by blast
  have b: "ttopBodyLine lib text s = f s"
    by (simp add: ttopBodyLine_def f onCurrent_def)
  show ?thesis
    using assms(2) by (simp add: f b onCurrent_def)
qed

text \<open>The snapshots that the loop and the code after it deliver, from any state.\<close>

lemma ttop_fold_blocks:
  "ttopFinish (fold (ttopLine lib) ls st) =
     snapshots st
     @ (case currentSnapshot st of
          None \<Rightarrow> []
        | Some s \<Rightarrow> [fold (ttopBodyLine lib) (takeWhile (\<lambda>x. \<not> isTopHeader x) ls) s])
     @ map (\<lambda>(k, h, body). fold (ttopBodyLine lib) body (openSnapshot lib k h))
         (enumerate (nowCalls st) (ttopBlocks ls))"
proof (induction ls arbitrary: st)
  case Nil
  show ?case by (simp add: ttopFinish_def split: option.splits)
next
  case (Cons l ls)
  show ?case
  proof (cases "isTopHeader l")
    case True
    show ?thesis
      by (simp add: True ttopLine_header Cons.IH split: option.splits)
  next
    case False
    show ?thesis
    proof (cases "currentSnapshot st")
      case None
      with False show ?thesis
        by (simp add: ttopLine_other_closed Cons.IH)
    next
      case (Some s)
      with False show ?thesis
        by (simp add: ttopLine_other_open Cons.IH)
    qed
  qed
qed

lemma length_ttopBlocks: "length (ttopBlocks ls) = length (filter isTopHeader ls)"
  by (induction ls) simp_all

lemma Timestamp_ttopBodyLine:
  "\<not> isTopHeader text \<Longrightarrow> Timestamp (ttopBodyLine lib text s) = Timestamp s"
  by (simp add: ttopBodyLine_def ttopLine_def Let_def onCurrent_def isTopHeader_def
           split: sum.splits option.splits)

lemma Timestamp_fold_body:
  "\<forall>x \<in> set body. \<not> isTopHeader x \<Longrightarrow>
   Timestamp (fold (ttopBodyLine lib) body s) = Timestamp s"
  by (induction body arbitrary: s) (simp_all add: Timestamp_ttopBodyLine)

lemma Timestamp_blocks:
  "map (\<lambda>(k, h, body). Timestamp (fold (ttopBodyLine lib) body (openSnapshot lib k h)))
     (enumerate n (ttopBlocks ls))
   = map (\<lambda>(k, h). Timestamp (openSnapshot lib k h)) (enumerate n (filter isTopHeader ls))"
proof (induction ls arbitrary: n)
  case Nil
  show ?case by simp
next
  case (Cons l ls)
  have "\<forall>x \<in> set (takeWhile (\<lambda>x. \<not> isTopHeader x) ls). \<not> isTopHeader x"
    by (auto dest: set_takeWhileD)
  then show ?case
    by (simp add: Cons.IH Timestamp_fold_body)
qed

text \<open>
  Claim C3. When \<open>ParseTTop\<close> succeeds, its snapshots are, in order, the blocks of the
  input: one snapshot for each line whose trimmed text begins with \<open>top - \<close>, opened by
  that line and filled by the lines up to the next such line. So there are as many
  snapshots as such lines, the time stamps are those of the lines in the order of
  the text, and nothing is reordered, merged or dropped.
\<close>

theorem ParseTTop_snapshots_follow_headers:
  assumes "ParseTTop lib content = Inr d"
  shows "(let lines = map dropCR (rawLines content);
              headers = filter isTopHeader lines
          in length (Snapshots d) = length headers
             \<and> map Timestamp (Snapshots d)
                 = map (\<lambda>(k, h). Timestamp (openSnapshot lib k h)) (enumerate 0 headers)
             \<and> Snapshots d
                 = map (\<lambda>(k, h, body). fold (ttopBodyLine lib) body (openSnapshot lib k h))
                     (enumerate 0 (ttopBlocks lines)))"
proof -
  let ?lines = "map dropCR (rawLines content)"
  let ?snap = "\<lambda>(k, h, body). fold (ttopBodyLine lib) body (openSnapshot lib k h)"
  have s: "Snapshots d = map ?snap (enumerate 0 (ttopBlocks ?lines))"
  proof (cases "content = []")
    case True
    with assms show ?thesis by (auto simp: ParseTTop_cases)
  next
    case False
    with assms have ok: "\<not> snd (ScanLines content)"
      by (auto simp: ParseTTop_cases split: if_splits)
    with assms False
    have "Snapshots d = ttopFinish (fold (ttopLine lib) ?lines
                          \<lparr>snapshots = [], currentSnapshot = None, nowCalls = 0\<rparr>)"
      by (auto simp: ParseTTop_cases ScanLines_all)
    then show ?thesis by (simp add: ttop_fold_blocks)
  qed
  have t: "map Timestamp (Snapshots d)
             = map (\<lambda>(k, h). Timestamp (openSnapshot lib k h))
                 (enumerate 0 (filter isTopHeader ?lines))"
    unfolding s using Timestamp_blocks [of lib 0 ?lines]
    by (simp add: comp_def case_prod_unfold)
  have l: "length (Snapshots d) = length (filter isTopHeader ?lines)"
    unfolding s by (simp add: length_ttopBlocks)
  show ?thesis
    unfolding Let_def using s t l by blast
qed

theorem ParseTTop_snapshots_follow_headers_witness:
  "\<exists>d. ParseTTop sampleLib sampleTTop = Inr d
       \<and> length (Snapshots d) = 2
       \<and> map Timestamp (Snapshots d) = [((2025, 1, 1), (12, 2, 3)), ((2025, 1, 1), (0, 0, 1))]"
proof -
  have ne: "sampleTTop \<noteq> []" by (simp add: sampleTTop_def)
  have "\<forall>l \<in> set (rawLines sampleTTop). int (length l) < MaxScanTokenSize"
    by code_simp
  then have ok: "\<not> snd (ScanLines sampleTTop)"
    by (auto simp: ScanLines_fault)
  from ne ok obtain d where d: "ParseTTop sampleLib sampleTTop = Inr d"
    by (simp add: ParseTTop_cases)
  have h: "length (filter isTopHeader (map dropCR (rawLines sampleTTop))) = 2"
    by code_simp
  have t: "map (\<lambda>(k, h). Timestamp (openSnapshot sampleLib k h))
             (enumerate 0 (filter isTopHeader (map dropCR (rawLines sampleTTop))))
           = [((2025, 1, 1), (12, 2, 3)), ((2025, 1, 1), (0, 0, 1))]"
    by code_simp
  note th = ParseTTop_snapshots_follow_headers [OF d, unfolded Let_def]
  from th have a: "length (Snapshots d)
                     = length (filter isTopHeader (map dropCR (rawLines sampleTTop)))"
    by (rule conjunct1)
  from th have b: "map Timestamp (Snapshots d)
                     = map (\<lambda>(k, h). Timestamp (openSnapshot sampleLib k h))
                         (enumerate 0 (filter isTopHeader (map dropCR (rawLines sampleTTop))))"
    by (rule conjunct1 [OF conjunct2])
  have a': "length (Snapshots d) = 2"
    using a h by (simp only:)
  have b': "map Timestamp (Snapshots d) = [((2025, 1, 1), (12, 2, 3)), ((2025, 1, 1), (0, 0, 1))]"
    using b t by (simp only:)
  show ?thesis
    by (rule exI [of _ d]) (simp only: d a' b' simp_thms)
qed

section \<open>Properties of the IOStat parser\<close>

lemma iostatLoop_append:
  "iostatLoop lib (xs @ ys) st =
     (case iostatLoop lib xs st of Inl e \<Rightarrow> Inl e | Inr st' \<Rightarrow> iostatLoop lib ys st')"
  by (induction xs arbitrary: st) (simp_all split: sum.splits)

lemma iostatLine_lineNumber:
  "iostatLine lib text st = Inr st' \<Longrightarrow> lineNumber st' = lineNumber st + 1"
  by (auto simp: iostatLine_def Let_def split: if_splits sum.splits)

lemma iostatLoop_lineNumber:
  "iostatLoop lib ls st = Inr st' \<Longrightarrow> lineNumber st' = lineNumber st + length ls"
proof (induction ls arbitrary: st)
  case Nil
  then show ?case by simp
next
  case (Cons l ls)
  from Cons.prems obtain st1 where 1: "iostatLine lib l st = Inr st1"
    and 2: "iostatLoop lib ls st1 = Inr st'"
    by (auto split: sum.splits)
  from Cons.IH [OF 2] iostatLine_lineNumber [OF 1] show ?case by simp
qed

lemma iostatLoop_init_lineNumber:
  "iostatLoop lib ls iostatInit = Inr st \<Longrightarrow> lineNumber st = length ls"
  using iostatLoop_lineNumber [of lib ls iostatInit st] by (simp add: iostatInit_def)

lemma ParseIOStat_loop:
  assumes "fst (ScanLines content) = ls" and "ls \<noteq> []"
  shows "ParseIOStat lib content =
           (case iostatLoop lib ls iostatInit of Inl e \<Rightarrow> Inl e | Inr st \<Rightarrow> iostatFinish st)"
proof -
  from assms have "content \<noteq> []" by (auto simp: ScanLines_def)
  with assms(1) show ?thesis by (simp add: ParseIOStat_def)
qed

lemma ParseIOStat_fails_at:
  assumes "fst (ScanLines content) = pre @ [t] @ rest"
    and "iostatLoop lib pre iostatInit = Inr st"
    and "iostatLine lib t st = Inl e"
  shows "ParseIOStat lib content = Inl e"
proof -
  have "iostatLoop lib (pre @ [t] @ rest) iostatInit = Inl e"
    using assms(2,3) by (simp add: iostatLoop_append)
  then show ?thesis
    using ParseIOStat_loop [OF assms(1), of lib] by simp
qed

lemma iostatLine_timestamp:
  assumes "isTimestampLine (TrimSpace text)"
    and "\<not> (systemInfo st = [] \<and> Contains (TrimSpace text) ''Linux'')"
  shows "iostatLine lib text st =
           (if ioCurrentSnapshot st \<noteq> None \<and> expectingCPUStats st
            then Inl (ExpectedCPUFoundTimestamp (lineNumber st + 1))
            else (case parseIOStatTimestamp lib (TrimSpace text) of
                    Inl err \<Rightarrow> Inl (FailedToParseTimestampLine (lineNumber st + 1) err)
                  | Inr timestamp \<Rightarrow>
                      Inr (st\<lparr>lineNumber := lineNumber st + 1,
                               ioSnapshots :=
                                 (case ioCurrentSnapshot st of
                                    None \<Rightarrow> ioSnapshots st
                                  | Some s \<Rightarrow> ioSnapshots st @ [s]),
                               ioCurrentSnapshot :=
                                 Some \<lparr>IOTimestamp = timestamp, CPUStats = None, Devices = []\<rparr>,
                               inDeviceSection := False,
                               expectingCPUStats := True\<rparr>)))"
proof -
  from assms(1) have ne: "TrimSpace text \<noteq> []"
    by (auto simp: isTimestampLine_def)
  show ?thesis
    using assms ne by (auto simp: iostatLine_def Let_def split: sum.splits option.splits)
qed

lemma isTimestampLine_fields:
  "isTimestampLine line \<Longrightarrow> 2 \<le> length (Fields line)"
  by (auto simp: isTimestampLine_def Let_def split: if_splits)

lemma parseIOStatTimestamp_shape:
  "isTimestampLine line \<Longrightarrow>
   parseIOStatTimestamp lib line =
     (case parseDateTime lib (Fields line ! 0 @ '' '' @ Fields line ! 1) of
        None \<Rightarrow> Inl (FailedToParseTimestamp (Fields line ! 0 @ '' '' @ Fields line ! 1))
      | Some t \<Rightarrow> Inr t)"
  using isTimestampLine_fields [of line]
  by (simp add: parseIOStatTimestamp_def Let_def split: option.splits)

lemma iostatLine_between:
  assumes "skipBetween (systemInfo st) (text # rest) = Some info"
    and "ioCurrentSnapshot st \<noteq> None" and "expectingCPUStats st"
  shows "\<exists>st'. iostatLine lib text st = Inr st'
               \<and> ioCurrentSnapshot st' \<noteq> None \<and> expectingCPUStats st'
               \<and> skipBetween (systemInfo st') rest = Some info"
proof (cases "TrimSpace text = []")
  case True
  with assms show ?thesis by (simp add: iostatLine_def)
next
  case ne: False
  show ?thesis
  proof (cases "systemInfo st = [] \<and> Contains (TrimSpace text) ''Linux''")
    case True
    with ne assms show ?thesis by (simp add: iostatLine_def Let_def)
  next
    case False
    with ne assms(1)
    have h: "HasPrefix (TrimSpace text) ''avg-cpu:'' \<or> HasPrefix (TrimSpace text) ''Device''"
      and nt: "\<not> isTimestampLine (TrimSpace text)"
      and r: "skipBetween (systemInfo st) rest = Some info"
      by (auto simp: Let_def split: if_splits)
    from False ne nt h r assms(2,3) show ?thesis
      by (auto simp: iostatLine_def Let_def)
  qed
qed

lemma iostatLoop_between:
  assumes "skipBetween (systemInfo st) mid = Some info"
    and "ioCurrentSnapshot st \<noteq> None" and "expectingCPUStats st"
  shows "\<exists>st'. iostatLoop lib mid st = Inr st'
               \<and> ioCurrentSnapshot st' \<noteq> None \<and> expectingCPUStats st'
               \<and> systemInfo st' = info"
  using assms
proof (induction mid arbitrary: st)
  case Nil
  then show ?case by simp
next
  case (Cons l ls)
  from iostatLine_between [OF Cons.prems, of lib]
  obtain st1 where 1: "iostatLine lib l st = Inr st1"
    and 2: "ioCurrentSnapshot st1 \<noteq> None" and 3: "expectingCPUStats st1"
    and 4: "skipBetween (systemInfo st1) ls = Some info"
    by blast
  from Cons.IH [OF 4 2 3] 1 show ?case by simp
qed

lemma avg_cpu_not_timestamp:
  assumes "HasPrefix line ''avg-cpu:''"
  shows "\<not> isTimestampLine line"
proof
  let ?p = "''avg-cpu:''"
  let ?r = "drop (length ?p) line"
  assume ts: "isTimestampLine line"
  from assms have t: "take (length ?p) line = ?p"
    unfolding HasPrefix_def .
  have "line = take (length ?p) line @ ?r"
    by (simp only: append_take_drop_id)
  then have l: "line = ?p @ ?r"
    by (simp only: t)
  have sp: "\<forall>c \<in> set ?p. c \<notin> set (map hd spaceRunes)"
    by (simp add: spaceRunes_eq)
  have ne: "?p \<noteq> []" by simp
  from Fields_prefix [OF ne sp, of ?r]
  obtain f fs where "Fields (?p @ ?r) = (?p @ f) # fs"
    by blast
  then have F: "Fields line = (?p @ f) # fs"
    using l by (simp only:)
  from ts have len: "length (Fields line ! 0) = 8"
    and cnt: "CountByte (Fields line ! 0) (CHR ''/'') = 2"
    by (simp_all add: isTimestampLine_def Let_def split: if_splits)
  from len have "f = []" by (simp add: F)
  with cnt show False by (simp add: F CountByte_def)
qed

lemma not_isl_projr: "\<not> isl x \<Longrightarrow> x = Inr (projr x)"
  by (cases x) simp_all

lemma not_None_the: "x \<noteq> None \<Longrightarrow> x = Some (the x)"
  by simp

lemma ball_two: "P a \<Longrightarrow> P b \<Longrightarrow> \<forall>r \<in> set ([a] @ [b]). P r"
  by simp

lemma case_sum_projr:
  "(case x of Inl e \<Rightarrow> False | Inr v \<Rightarrow> P v) \<Longrightarrow> x = Inr (projr x) \<and> P (projr x)"
  by (cases x) simp_all

lemma rawLines_line:
  "CHR 0x0A \<notin> set l \<Longrightarrow> rawLines (l @ CHR 0x0A # rest) = l # rawLines rest"
  by (induction l) auto

lemma rawLines_joinLines:
  "\<forall>l \<in> set ls. CHR 0x0A \<notin> set l \<Longrightarrow> rawLines (joinLines ls @ s) = ls @ rawLines s"
proof (induction ls)
  case Nil
  show ?case by (simp add: joinLines_def)
next
  case (Cons l ls)
  then have IH: "rawLines (joinLines ls @ s) = ls @ rawLines s" by simp
  from Cons.prems have "CHR 0x0A \<notin> set l" by simp
  from rawLines_line [OF this, of "joinLines ls @ s"] IH
  show ?case by (simp add: joinLines_def newline_def)
qed

text \<open>
  The scan ends at a line that does not fit the buffer: the lines before it are all
  that the scanner delivers.
\<close>

lemma ScanLines_stops:
  assumes "\<forall>l \<in> set ls. CHR 0x0A \<notin> set l \<and> fitsBuffer l"
    and "big \<noteq> []" and "CHR 0x0A \<notin> set big" and "\<not> fitsBuffer big"
    and "tail = [] \<or> (\<exists>r. tail = CHR 0x0A # r)"
  shows "fst (ScanLines (joinLines ls @ big @ tail)) = map dropCR ls"
proof -
  have "\<exists>rs. rawLines (big @ tail) = big # rs"
  proof (cases "tail = []")
    case True
    with rawLines_single [OF assms(2,3)] show ?thesis by simp
  next
    case False
    with assms(5) obtain r where "tail = CHR 0x0A # r" by blast
    with rawLines_line [OF assms(3), of r] show ?thesis by simp
  qed
  then obtain rs where b: "rawLines (big @ tail) = big # rs" by blast
  have r: "rawLines (joinLines ls @ big @ tail) = ls @ big # rs"
    using rawLines_joinLines [of ls "big @ tail"] assms(1) b by simp
  have "takeWhile fitsBuffer (ls @ big # rs) = ls"
    using assms(1,4) by (simp add: takeWhile_append2)
  then show ?thesis
    by (simp add: ScanLines_def r)
qed

subsection \<open>Two time stamps in a row\<close>

text \<open>
  Claim C4, as the code has it. Among the lines that the scanner delivers, let a line
  shaped like a time stamp open a snapshot (it is not taken as the system
  information, and the loop continues after it), and let it be followed, with
  nothing but blank lines, a line taken as the system information, \<open>avg-cpu:\<close>
  header lines and \<open>Device\<close> header lines in between, by another line shaped like a
  time stamp that is not taken as the system information. Then \<open>ParseIOStat\<close> fails;
  the message is \<open>line N: expected CPU statistics after timestamp, but found another
  timestamp\<close>, where \<open>N\<close> is the number of the second line, counted from 1.
\<close>

theorem iostat_timestamp_after_timestamp:
  assumes "fst (ScanLines content) = pre @ [t1] @ mid @ [t2] @ rest"
    and "iostatLoop lib pre iostatInit = Inr st0"
    and "iostatLine lib t1 st0 = Inr st1"
    and "isTimestampLine (TrimSpace t1)"
    and "\<not> (systemInfo st0 = [] \<and> Contains (TrimSpace t1) ''Linux'')"
    and "skipBetween (systemInfo st0) mid = Some info"
    and "isTimestampLine (TrimSpace t2)"
    and "\<not> (info = [] \<and> Contains (TrimSpace t2) ''Linux'')"
  shows "ParseIOStat lib content
           = Inl (ExpectedCPUFoundTimestamp (length pre + length mid + 2))
         \<and> errorText (ExpectedCPUFoundTimestamp (length pre + length mid + 2))
           = ''line '' @ showNat (length pre + length mid + 2)
             @ '': expected CPU statistics after timestamp, but found another timestamp''"
proof -
  have n0: "lineNumber st0 = length pre"
    using assms(2) by (rule iostatLoop_init_lineNumber)
  have n1: "lineNumber st1 = length pre + 1"
    using iostatLine_lineNumber [OF assms(3)] n0 by simp
  have open1: "ioCurrentSnapshot st1 \<noteq> None \<and> expectingCPUStats st1
               \<and> systemInfo st1 = systemInfo st0"
    using assms(3) iostatLine_timestamp [OF assms(4,5), of lib]
    by (auto split: if_splits sum.splits)
  then have sk: "skipBetween (systemInfo st1) mid = Some info"
    using assms(6) by simp
  from iostatLoop_between [OF sk, of lib] open1
  obtain st2 where 2: "iostatLoop lib mid st1 = Inr st2"
    and open2: "ioCurrentSnapshot st2 \<noteq> None" "expectingCPUStats st2"
    and i2: "systemInfo st2 = info"
    by blast
  have n2: "lineNumber st2 = length pre + length mid + 1"
    using iostatLoop_lineNumber [OF 2] n1 by simp
  have nl: "\<not> (systemInfo st2 = [] \<and> Contains (TrimSpace t2) ''Linux'')"
    using assms(8) i2 by simp
  have e: "iostatLine lib t2 st2 = Inl (ExpectedCPUFoundTimestamp (length pre + length mid + 2))"
    using iostatLine_timestamp [OF assms(7) nl, of lib] open2 n2 by simp
  have l: "iostatLoop lib (pre @ [t1] @ mid) iostatInit = Inr st2"
    using assms(2,3) 2 by (simp add: iostatLoop_append)
  have lines: "fst (ScanLines content) = (pre @ [t1] @ mid) @ [t2] @ rest"
    using assms(1) by simp
  have r: "ParseIOStat lib content
             = Inl (ExpectedCPUFoundTimestamp (length pre + length mid + 2))"
    by (rule ParseIOStat_fails_at [OF lines l e])
  have m: "errorText (ExpectedCPUFoundTimestamp (length pre + length mid + 2))
           = ''line '' @ showNat (length pre + length mid + 2)
             @ '': expected CPU statistics after timestamp, but found another timestamp''"
    by (simp del: showNat.simps)
  from r m show ?thesis by (rule conjI)
qed

theorem iostat_timestamp_after_timestamp_witness:
  "ParseIOStat sampleLib
     (joinLines [ioTimestamp1, ioSystemLine, [], ioCPUHeader, nbsp @ ioDeviceHeader,
                 nbsp @ ioTimestamp2])
   = Inl (ExpectedCPUFoundTimestamp 6)"
proof -
  let ?content = "joinLines [ioTimestamp1, ioSystemLine, [], ioCPUHeader, nbsp @ ioDeviceHeader,
                             nbsp @ ioTimestamp2]"
  let ?mid = "[ioSystemLine, [], ioCPUHeader, nbsp @ ioDeviceHeader]"
  let ?st1 = "projr (iostatLine sampleLib ioTimestamp1 iostatInit)"
  have lines: "fst (ScanLines ?content)
                 = [] @ [ioTimestamp1] @ ?mid @ [nbsp @ ioTimestamp2] @ []"
    by code_simp
  have s0: "iostatLoop sampleLib [] iostatInit = Inr iostatInit"
    by simp
  have "\<not> isl (iostatLine sampleLib ioTimestamp1 iostatInit)" by code_simp
  then have s1: "iostatLine sampleLib ioTimestamp1 iostatInit = Inr ?st1"
    by (rule not_isl_projr)
  have a: "isTimestampLine (TrimSpace ioTimestamp1)" by code_simp
  have b: "\<not> (systemInfo (iostatInit :: (rat, (nat \<times> nat \<times> nat) \<times> (nat \<times> nat \<times> nat)) iostat_state) = []
              \<and> Contains (TrimSpace ioTimestamp1) ''Linux'')"
    by code_simp
  have c: "skipBetween (systemInfo (iostatInit :: (rat, (nat \<times> nat \<times> nat) \<times> (nat \<times> nat \<times> nat)) iostat_state)) ?mid
             = Some ioSystemLine"
    by code_simp
  have d: "isTimestampLine (TrimSpace (nbsp @ ioTimestamp2))" by code_simp
  have e: "\<not> (ioSystemLine = [] \<and> Contains (TrimSpace (nbsp @ ioTimestamp2)) ''Linux'')"
    by code_simp
  from iostat_timestamp_after_timestamp [OF lines s0 s1 a b c d e]
  show ?thesis by simp
qed

text \<open>
  Without the restrictions the claim fails. A line of two fields after the time
  stamp is no line of six fields, yet the parse ends there, at line 2, with the
  message about the number of fields, before the second time stamp at line 3 is read.
  And a blank line of 65536 bytes between the two time stamps ends the scan: the
  second time stamp is never read and the error is the one for the end of the input.
\<close>

theorem iostat_timestamp_after_timestamp_counterexample:
  "isTimestampLine ioTimestamp1 \<and> isTimestampLine ioTimestamp2
   \<and> length (Fields ''some text'') = 2
   \<and> ParseIOStat sampleLib (joinLines [ioTimestamp1, ''some text'', ioTimestamp2])
       = Inl (ExpectedCPUFields 2 2)
   \<and> errorText (ExpectedCPUFields 2 2)
       = ''line 2: expected CPU statistics with 6 fields, got 2 fields''
   \<and> ParseIOStat sampleLib (joinLines [ioTimestamp1] @ ioLongBlank @ newline @ ioTimestamp2)
       = Inl (ExpectedCPUReachedEOF 1)"
proof -
  have 1: "isTimestampLine ioTimestamp1 \<and> isTimestampLine ioTimestamp2
           \<and> length (Fields ''some text'') = 2
           \<and> ParseIOStat sampleLib (joinLines [ioTimestamp1, ''some text'', ioTimestamp2])
               = Inl (ExpectedCPUFields 2 2)
           \<and> errorText (ExpectedCPUFields 2 2)
               = ''line 2: expected CPU statistics with 6 fields, got 2 fields''"
    by code_simp
  have f: "\<forall>l \<in> set [ioTimestamp1]. CHR 0x0A \<notin> set l \<and> fitsBuffer l"
    by code_simp
  have b1: "ioLongBlank \<noteq> []"
    unfolding ioLongBlank_def by (simp only: replicate_empty; simp)
  have b2: "CHR 0x0A \<notin> set ioLongBlank"
    unfolding ioLongBlank_def by (simp only: set_replicate_conv_if; simp)
  have b3: "\<not> fitsBuffer ioLongBlank"
    unfolding ioLongBlank_def fitsBuffer_def MaxScanTokenSize_def
    by (simp only: length_replicate; simp)
  have t: "newline @ ioTimestamp2 = [] \<or> (\<exists>r. newline @ ioTimestamp2 = CHR 0x0A # r)"
    by (simp add: newline_def)
  have d: "map dropCR [ioTimestamp1] = [ioTimestamp1]" by code_simp
  have s: "fst (ScanLines (joinLines [ioTimestamp1] @ ioLongBlank @ newline @ ioTimestamp2))
             = [ioTimestamp1]"
    using ScanLines_stops [OF f b1 b2 b3 t] d by (simp only:)
  have ne: "[ioTimestamp1] \<noteq> []" by simp
  have e: "(case iostatLoop sampleLib [ioTimestamp1] iostatInit of
              Inl e \<Rightarrow> Inl e
            | Inr st \<Rightarrow> iostatFinish st)
           = Inl (ExpectedCPUReachedEOF 1)"
    by code_simp
  have 2: "ParseIOStat sampleLib (joinLines [ioTimestamp1] @ ioLongBlank @ newline @ ioTimestamp2)
             = Inl (ExpectedCPUReachedEOF 1)"
    unfolding ParseIOStat_loop [OF s ne] by (rule e)
  from 1 2 show ?thesis by simp
qed

subsection \<open>The header of the CPU statistics\<close>

text \<open>
  Claim C9, as the code has it. A line whose trimmed text begins with \<open>avg-cpu:\<close>, and
  which is not taken as the system information, is handled by the state it meets:
  with no snapshot open it is ignored, with a snapshot open whose CPU statistics are
  not expected any more \<open>ParseIOStat\<close> fails with \<open>line N: unexpected CPU statistics
  header\<close>, and with CPU statistics expected it is skipped, the only change to the
  state, apart from the line count, being that \<open>inDeviceSection\<close> is cleared.
\<close>

theorem iostat_avg_cpu_header:
  assumes "fst (ScanLines content) = pre @ [t] @ rest"
    and "iostatLoop lib pre iostatInit = Inr st"
    and "HasPrefix (TrimSpace t) ''avg-cpu:''"
    and "\<not> (systemInfo st = [] \<and> Contains (TrimSpace t) ''Linux'')"
  shows "iostatLine lib t st
           = (if ioCurrentSnapshot st = None then Inr (st\<lparr>lineNumber := length pre + 1\<rparr>)
              else if \<not> expectingCPUStats st then Inl (UnexpectedCPUHeader (length pre + 1))
              else Inr (st\<lparr>lineNumber := length pre + 1, inDeviceSection := False\<rparr>))
         \<and> (if ioCurrentSnapshot st \<noteq> None \<and> \<not> expectingCPUStats st
            then ParseIOStat lib content = Inl (UnexpectedCPUHeader (length pre + 1))
                 \<and> errorText (UnexpectedCPUHeader (length pre + 1))
                     = ''line '' @ showNat (length pre + 1) @ '': unexpected CPU statistics header''
            else (\<exists>st'. iostatLoop lib (pre @ [t]) iostatInit = Inr st'))"
proof -
  have n: "lineNumber st = length pre"
    using assms(2) by (rule iostatLoop_init_lineNumber)
  have ne: "TrimSpace t \<noteq> []"
    using assms(3) by (auto simp: HasPrefix_def)
  have nt: "\<not> isTimestampLine (TrimSpace t)"
    using assms(3) by (rule avg_cpu_not_timestamp)
  have nd: "\<not> HasPrefix (TrimSpace t) ''Device''"
    using assms(3) by (cases "TrimSpace t") (auto simp: HasPrefix_def)
  have step: "iostatLine lib t st
           = (if ioCurrentSnapshot st = None then Inr (st\<lparr>lineNumber := length pre + 1\<rparr>)
              else if \<not> expectingCPUStats st then Inl (UnexpectedCPUHeader (length pre + 1))
              else Inr (st\<lparr>lineNumber := length pre + 1, inDeviceSection := False\<rparr>))"
    using assms(3,4) ne nt nd n
    by (auto simp: iostatLine_def Let_def)
  have second: "(if ioCurrentSnapshot st \<noteq> None \<and> \<not> expectingCPUStats st
            then ParseIOStat lib content = Inl (UnexpectedCPUHeader (length pre + 1))
                 \<and> errorText (UnexpectedCPUHeader (length pre + 1))
                     = ''line '' @ showNat (length pre + 1) @ '': unexpected CPU statistics header''
            else (\<exists>st'. iostatLoop lib (pre @ [t]) iostatInit = Inr st'))"
  proof (cases "ioCurrentSnapshot st \<noteq> None \<and> \<not> expectingCPUStats st")
    case True
    with step have "iostatLine lib t st = Inl (UnexpectedCPUHeader (length pre + 1))"
      by simp
    from ParseIOStat_fails_at [OF assms(1,2) this] True show ?thesis by simp
  next
    case False
    with step assms(2) show ?thesis
      by (auto simp: iostatLoop_append)
  qed
  from step second show ?thesis by (rule conjI)
qed

theorem iostat_avg_cpu_header_witness:
  "ParseIOStat sampleLib (joinLines [ioTimestamp1, ioCPUHeader, ioCPURow, nbsp @ ioCPUHeader])
     = Inl (UnexpectedCPUHeader 4)
   \<and> errorText (UnexpectedCPUHeader 4) = ''line 4: unexpected CPU statistics header''"
proof -
  let ?content = "joinLines [ioTimestamp1, ioCPUHeader, ioCPURow, nbsp @ ioCPUHeader]"
  let ?pre = "[ioTimestamp1, ioCPUHeader, ioCPURow]"
  let ?st = "projr (iostatLoop sampleLib ?pre iostatInit)"
  have lines: "fst (ScanLines ?content) = ?pre @ [nbsp @ ioCPUHeader] @ []"
    by code_simp
  have "\<not> isl (iostatLoop sampleLib ?pre iostatInit)" by code_simp
  then have s: "iostatLoop sampleLib ?pre iostatInit = Inr ?st"
    by (rule not_isl_projr)
  have a: "HasPrefix (TrimSpace (nbsp @ ioCPUHeader)) ''avg-cpu:''" by code_simp
  have b: "\<not> (systemInfo ?st = [] \<and> Contains (TrimSpace (nbsp @ ioCPUHeader)) ''Linux'')"
    by code_simp
  have c: "ioCurrentSnapshot ?st \<noteq> None \<and> \<not> expectingCPUStats ?st" by code_simp
  have n: "showNat 4 = ''4''" by code_simp
  from iostat_avg_cpu_header [OF lines s a b] c
  have "ParseIOStat sampleLib ?content = Inl (UnexpectedCPUHeader (length ?pre + 1))"
    by (simp only: if_True) simp
  then show ?thesis by (simp add: n del: showNat.simps)
qed

text \<open>
  The claim that the line fails whenever CPU statistics are not expected is false
  before the first time stamp: there \<open>expectingCPUStats\<close> is false, no snapshot is open,
  and the line is ignored.
\<close>

theorem iostat_avg_cpu_header_counterexample:
  "HasPrefix ioCPUHeader ''avg-cpu:''
   \<and> \<not> expectingCPUStats (iostatInit :: (rat, (nat \<times> nat \<times> nat) \<times> (nat \<times> nat \<times> nat)) iostat_state)
   \<and> ParseIOStat sampleLib ioCPUHeader = Inr \<lparr>SystemInfo = [], IOSnapshots = []\<rparr>"
  by code_simp

subsection \<open>A time stamp that does not parse\<close>

text \<open>
  Claim C10, as the code has it. Let the parser read a line shaped like a time stamp
  that is not taken as the system information and whose first two fields the layout
  \<open>01/02/06 15:04:05\<close> rejects. When the parser is not expecting the CPU statistics of
  an open snapshot, \<open>ParseIOStat\<close> fails with \<open>line N: failed to parse timestamp: ...\<close>,
  \<open>N\<close> being the number of the line counted from 1. When it is still expecting them,
  \<open>ParseIOStat\<close> fails at the same line with \<open>line N: expected CPU statistics after
  timestamp, but found another timestamp\<close>: that check comes before the date is parsed.
\<close>

theorem iostat_bad_timestamp:
  assumes "fst (ScanLines content) = pre @ [t] @ rest"
    and "iostatLoop lib pre iostatInit = Inr st"
    and "isTimestampLine (TrimSpace t)"
    and "\<not> (systemInfo st = [] \<and> Contains (TrimSpace t) ''Linux'')"
    and "parseDateTime lib (Fields (TrimSpace t) ! 0 @ '' '' @ Fields (TrimSpace t) ! 1) = None"
  shows "ParseIOStat lib content
           = (if ioCurrentSnapshot st \<noteq> None \<and> expectingCPUStats st
              then Inl (ExpectedCPUFoundTimestamp (length pre + 1))
              else Inl (FailedToParseTimestampLine (length pre + 1)
                          (FailedToParseTimestamp
                             (Fields (TrimSpace t) ! 0 @ '' '' @ Fields (TrimSpace t) ! 1))))
         \<and> HasPrefix
              (errorText (FailedToParseTimestampLine (length pre + 1)
                    (FailedToParseTimestamp
                       (Fields (TrimSpace t) ! 0 @ '' '' @ Fields (TrimSpace t) ! 1))))
              (''line '' @ showNat (length pre + 1) @ '': failed to parse timestamp'')
         \<and> errorText (ExpectedCPUFoundTimestamp (length pre + 1))
           = ''line '' @ showNat (length pre + 1)
             @ '': expected CPU statistics after timestamp, but found another timestamp''"
proof -
  let ?c = "FailedToParseTimestamp (Fields (TrimSpace t) ! 0 @ '' '' @ Fields (TrimSpace t) ! 1)"
  have n: "lineNumber st = length pre"
    using assms(2) by (rule iostatLoop_init_lineNumber)
  have p: "parseIOStatTimestamp lib (TrimSpace t) = Inl ?c"
    using parseIOStatTimestamp_shape [OF assms(3), of lib] assms(5) by simp
  have e: "iostatLine lib t st
             = (if ioCurrentSnapshot st \<noteq> None \<and> expectingCPUStats st
                then Inl (ExpectedCPUFoundTimestamp (length pre + 1))
                else Inl (FailedToParseTimestampLine (length pre + 1) ?c))"
    using iostatLine_timestamp [OF assms(3,4), of lib] p n by auto
  have r: "ParseIOStat lib content
             = (if ioCurrentSnapshot st \<noteq> None \<and> expectingCPUStats st
                then Inl (ExpectedCPUFoundTimestamp (length pre + 1))
                else Inl (FailedToParseTimestampLine (length pre + 1) ?c))"
  proof (cases "ioCurrentSnapshot st \<noteq> None \<and> expectingCPUStats st")
    case True
    with e have "iostatLine lib t st = Inl (ExpectedCPUFoundTimestamp (length pre + 1))"
      by simp
    from ParseIOStat_fails_at [OF assms(1,2) this] True show ?thesis by simp
  next
    case False
    with e have "iostatLine lib t st = Inl (FailedToParseTimestampLine (length pre + 1) ?c)"
      by simp
    from ParseIOStat_fails_at [OF assms(1,2) this] False show ?thesis by simp
  qed
  have m: "HasPrefix (errorText (FailedToParseTimestampLine (length pre + 1) ?c))
             (''line '' @ showNat (length pre + 1) @ '': failed to parse timestamp'')"
    by (simp add: HasPrefix_def del: showNat.simps)
  have m2: "errorText (ExpectedCPUFoundTimestamp (length pre + 1))
           = ''line '' @ showNat (length pre + 1)
             @ '': expected CPU statistics after timestamp, but found another timestamp''"
    by (simp del: showNat.simps)
  from r m m2 show ?thesis by (intro conjI)
qed

theorem iostat_bad_timestamp_witness:
  "ParseIOStat sampleLib (joinLines [ioSystemLine, nbsp @ ioBadTimestamp])
     = Inl (FailedToParseTimestampLine 2 (FailedToParseTimestamp ioBadTimestamp))
   \<and> ParseIOStat sampleLib (joinLines [ioSystemLine, ioTimestamp1, [], ioBadTimestamp])
     = Inl (ExpectedCPUFoundTimestamp 4)"
proof -
  let ?content = "joinLines [ioSystemLine, nbsp @ ioBadTimestamp]"
  let ?st = "projr (iostatLoop sampleLib [ioSystemLine] iostatInit)"
  let ?content2 = "joinLines [ioSystemLine, ioTimestamp1, [], ioBadTimestamp]"
  let ?pre2 = "[ioSystemLine, ioTimestamp1, []]"
  let ?st2 = "projr (iostatLoop sampleLib ?pre2 iostatInit)"
  have lines: "fst (ScanLines ?content) = [ioSystemLine] @ [nbsp @ ioBadTimestamp] @ []"
    by code_simp
  have "\<not> isl (iostatLoop sampleLib [ioSystemLine] iostatInit)" by code_simp
  then have s: "iostatLoop sampleLib [ioSystemLine] iostatInit = Inr ?st"
    by (rule not_isl_projr)
  have a: "isTimestampLine (TrimSpace (nbsp @ ioBadTimestamp))" by code_simp
  have b: "\<not> (systemInfo ?st = [] \<and> Contains (TrimSpace (nbsp @ ioBadTimestamp)) ''Linux'')"
    by code_simp
  have c: "(ioCurrentSnapshot ?st \<noteq> None \<and> expectingCPUStats ?st) = False" by code_simp
  have d: "parseDateTime sampleLib
             (Fields (TrimSpace (nbsp @ ioBadTimestamp)) ! 0 @ '' ''
              @ Fields (TrimSpace (nbsp @ ioBadTimestamp)) ! 1)
           = None"
    by code_simp
  have f: "Fields (TrimSpace (nbsp @ ioBadTimestamp)) ! 0 @ '' ''
             @ Fields (TrimSpace (nbsp @ ioBadTimestamp)) ! 1
           = ioBadTimestamp"
    by code_simp
  have 1: "ParseIOStat sampleLib ?content
             = Inl (FailedToParseTimestampLine 2 (FailedToParseTimestamp ioBadTimestamp))"
    using conjunct1 [OF iostat_bad_timestamp [OF lines s a b d]]
    unfolding f c by simp
  have lines2: "fst (ScanLines ?content2) = ?pre2 @ [ioBadTimestamp] @ []"
    by code_simp
  have "\<not> isl (iostatLoop sampleLib ?pre2 iostatInit)" by code_simp
  then have s2: "iostatLoop sampleLib ?pre2 iostatInit = Inr ?st2"
    by (rule not_isl_projr)
  have a2: "isTimestampLine (TrimSpace ioBadTimestamp)" by code_simp
  have b2: "\<not> (systemInfo ?st2 = [] \<and> Contains (TrimSpace ioBadTimestamp) ''Linux'')"
    by code_simp
  have c2: "(ioCurrentSnapshot ?st2 \<noteq> None \<and> expectingCPUStats ?st2) = True" by code_simp
  have d2: "parseDateTime sampleLib
             (Fields (TrimSpace ioBadTimestamp) ! 0 @ '' '' @ Fields (TrimSpace ioBadTimestamp) ! 1)
           = None"
    by code_simp
  have 2: "ParseIOStat sampleLib ?content2 = Inl (ExpectedCPUFoundTimestamp 4)"
    using conjunct1 [OF iostat_bad_timestamp [OF lines2 s2 a2 b2 d2]]
    unfolding c2 by simp
  from 1 2 show ?thesis by (rule conjI)
qed

text \<open>
  The claim as it was stated, with the one message for every such line, fails when
  the CPU statistics of the previous time stamp are still expected.
\<close>

theorem iostat_bad_timestamp_counterexample:
  "isTimestampLine ioBadTimestamp
   \<and> parseDateTime sampleLib ioBadTimestamp = None
   \<and> ParseIOStat sampleLib (joinLines [ioTimestamp1, ioBadTimestamp])
       = Inl (ExpectedCPUFoundTimestamp 2)
   \<and> errorText (ExpectedCPUFoundTimestamp 2)
       = ''line 2: expected CPU statistics after timestamp, but found another timestamp''"
  by code_simp

subsection \<open>Snapshots have their CPU statistics\<close>

lemma iostatInv_init: "iostatInv iostatInit"
  by (simp add: iostatInv_def iostatInit_def)

lemma iostatLine_inv:
  assumes "iostatInv st" and "iostatLine lib text st = Inr st'"
  shows "iostatInv st'"
proof (cases "ioCurrentSnapshot st")
  case None
  with assms show ?thesis
    by (auto simp: iostatLine_def iostatInv_def Let_def currentCPUStats_def
             split: if_splits sum.splits)
next
  case (Some s)
  with assms show ?thesis
    by (auto simp: iostatLine_def iostatInv_def Let_def currentCPUStats_def
             split: if_splits sum.splits)
qed

lemma iostatLoop_inv:
  "iostatInv st \<Longrightarrow> iostatLoop lib ls st = Inr st' \<Longrightarrow> iostatInv st'"
proof (induction ls arbitrary: st)
  case Nil
  then show ?case by simp
next
  case (Cons l ls)
  from Cons.prems(2) obtain st1 where 1: "iostatLine lib l st = Inr st1"
    and 2: "iostatLoop lib ls st1 = Inr st'"
    by (auto split: sum.splits)
  from iostatLine_inv [OF Cons.prems(1) 1] have "iostatInv st1" .
  from Cons.IH [OF this 2] show ?case .
qed

lemma iostatFinish_inv:
  "iostatInv st \<Longrightarrow> iostatFinish st = Inr d \<Longrightarrow>
   list_all (\<lambda>s. CPUStats s \<noteq> None) (IOSnapshots d)"
  by (auto simp: iostatFinish_def iostatInv_def split: option.splits if_splits)

text \<open>
  Claim C6. Every snapshot in a result that \<open>ParseIOStat\<close> returns without error has
  its CPU statistics. A snapshot is appended only when a later time stamp or the end
  of the input finds \<open>expectingCPUStats\<close> cleared. While the open snapshot still
  expects them, a line shaped like a time stamp (and not taken as the system
  information) makes \<open>ParseIOStat\<close> fail with \<open>line N: expected CPU statistics after
  timestamp, but found another timestamp\<close>, and the end of the input makes it fail
  with \<open>line N: expected CPU statistics after timestamp, but reached end of file\<close>,
  \<open>N\<close> being the number of lines read.
\<close>

theorem ParseIOStat_CPUStats_set:
  "(\<forall>d. ParseIOStat lib content = Inr d
        \<longrightarrow> list_all (\<lambda>s. CPUStats s \<noteq> None) (IOSnapshots d))
   \<and> (\<forall>pre t rest st.
         fst (ScanLines content) = pre @ [t] @ rest
         \<and> iostatLoop lib pre iostatInit = Inr st
         \<and> ioCurrentSnapshot st \<noteq> None \<and> expectingCPUStats st
         \<and> isTimestampLine (TrimSpace t)
         \<and> \<not> (systemInfo st = [] \<and> Contains (TrimSpace t) ''Linux'')
        \<longrightarrow> ParseIOStat lib content = Inl (ExpectedCPUFoundTimestamp (length pre + 1))
            \<and> errorText (ExpectedCPUFoundTimestamp (length pre + 1))
              = ''line '' @ showNat (length pre + 1)
                @ '': expected CPU statistics after timestamp, but found another timestamp'')
   \<and> (\<forall>st. iostatLoop lib (fst (ScanLines content)) iostatInit = Inr st
             \<and> ioCurrentSnapshot st \<noteq> None \<and> expectingCPUStats st
        \<longrightarrow> ParseIOStat lib content
              = Inl (ExpectedCPUReachedEOF (length (fst (ScanLines content))))
            \<and> errorText (ExpectedCPUReachedEOF (length (fst (ScanLines content))))
              = ''line '' @ showNat (length (fst (ScanLines content)))
                @ '': expected CPU statistics after timestamp, but reached end of file'')"
proof -
  have first: "\<forall>d. ParseIOStat lib content = Inr d
        \<longrightarrow> list_all (\<lambda>s. CPUStats s \<noteq> None) (IOSnapshots d)"
  proof (intro allI impI)
    fix d
    assume ok: "ParseIOStat lib content = Inr d"
    show "list_all (\<lambda>s. CPUStats s \<noteq> None) (IOSnapshots d)"
    proof (cases "content = []")
      case True
      with ok show ?thesis by (auto simp: ParseIOStat_def)
    next
      case False
      with ok obtain st where l: "iostatLoop lib (fst (ScanLines content)) iostatInit = Inr st"
        and f: "iostatFinish st = Inr d"
        by (auto simp: ParseIOStat_def split: sum.splits)
      from iostatLoop_inv [OF iostatInv_init l] have "iostatInv st" .
      from iostatFinish_inv [OF this f] show ?thesis .
    qed
  qed
  have second: "\<forall>pre t rest st.
         fst (ScanLines content) = pre @ [t] @ rest
         \<and> iostatLoop lib pre iostatInit = Inr st
         \<and> ioCurrentSnapshot st \<noteq> None \<and> expectingCPUStats st
         \<and> isTimestampLine (TrimSpace t)
         \<and> \<not> (systemInfo st = [] \<and> Contains (TrimSpace t) ''Linux'')
        \<longrightarrow> ParseIOStat lib content = Inl (ExpectedCPUFoundTimestamp (length pre + 1))
            \<and> errorText (ExpectedCPUFoundTimestamp (length pre + 1))
              = ''line '' @ showNat (length pre + 1)
                @ '': expected CPU statistics after timestamp, but found another timestamp''"
  proof (intro allI impI)
    fix pre t rest st
    assume a: "fst (ScanLines content) = pre @ [t] @ rest
         \<and> iostatLoop lib pre iostatInit = Inr st
         \<and> ioCurrentSnapshot st \<noteq> None \<and> expectingCPUStats st
         \<and> isTimestampLine (TrimSpace t)
         \<and> \<not> (systemInfo st = [] \<and> Contains (TrimSpace t) ''Linux'')"
    then have lines: "fst (ScanLines content) = pre @ [t] @ rest"
      and l: "iostatLoop lib pre iostatInit = Inr st"
      and c: "ioCurrentSnapshot st \<noteq> None" and e: "expectingCPUStats st"
      and ts: "isTimestampLine (TrimSpace t)"
      and nl: "\<not> (systemInfo st = [] \<and> Contains (TrimSpace t) ''Linux'')"
      by simp_all
    have n: "lineNumber st = length pre"
      using l by (rule iostatLoop_init_lineNumber)
    have "iostatLine lib t st = Inl (ExpectedCPUFoundTimestamp (length pre + 1))"
      using iostatLine_timestamp [OF ts nl, of lib] c e n by simp
    from ParseIOStat_fails_at [OF lines l this]
    have r: "ParseIOStat lib content = Inl (ExpectedCPUFoundTimestamp (length pre + 1))" .
    have m: "errorText (ExpectedCPUFoundTimestamp (length pre + 1))
              = ''line '' @ showNat (length pre + 1)
                @ '': expected CPU statistics after timestamp, but found another timestamp''"
      by (simp del: showNat.simps)
    from r m
    show "ParseIOStat lib content = Inl (ExpectedCPUFoundTimestamp (length pre + 1))
            \<and> errorText (ExpectedCPUFoundTimestamp (length pre + 1))
              = ''line '' @ showNat (length pre + 1)
                @ '': expected CPU statistics after timestamp, but found another timestamp''"
      by (rule conjI)
  qed
  have third: "\<forall>st. iostatLoop lib (fst (ScanLines content)) iostatInit = Inr st
             \<and> ioCurrentSnapshot st \<noteq> None \<and> expectingCPUStats st
        \<longrightarrow> ParseIOStat lib content
              = Inl (ExpectedCPUReachedEOF (length (fst (ScanLines content))))
            \<and> errorText (ExpectedCPUReachedEOF (length (fst (ScanLines content))))
              = ''line '' @ showNat (length (fst (ScanLines content)))
                @ '': expected CPU statistics after timestamp, but reached end of file''"
  proof (intro allI impI)
    fix st
    assume a: "iostatLoop lib (fst (ScanLines content)) iostatInit = Inr st
               \<and> ioCurrentSnapshot st \<noteq> None \<and> expectingCPUStats st"
    then have l: "iostatLoop lib (fst (ScanLines content)) iostatInit = Inr st"
      and c: "ioCurrentSnapshot st \<noteq> None" and e: "expectingCPUStats st"
      by simp_all
    have n: "lineNumber st = length (fst (ScanLines content))"
      using l by (rule iostatLoop_init_lineNumber)
    have ne: "content \<noteq> []"
    proof
      assume "content = []"
      then have "fst (ScanLines content) = []" by (simp add: ScanLines_def)
      with l have "st = iostatInit" by simp
      with c show False by (simp add: iostatInit_def)
    qed
    from ne l c e n
    have r: "ParseIOStat lib content
            = Inl (ExpectedCPUReachedEOF (length (fst (ScanLines content))))"
      by (auto simp: ParseIOStat_def iostatFinish_def)
    have m: "errorText (ExpectedCPUReachedEOF (length (fst (ScanLines content))))
              = ''line '' @ showNat (length (fst (ScanLines content)))
                @ '': expected CPU statistics after timestamp, but reached end of file''"
      by (simp del: showNat.simps)
    from r m
    show "ParseIOStat lib content
              = Inl (ExpectedCPUReachedEOF (length (fst (ScanLines content))))
            \<and> errorText (ExpectedCPUReachedEOF (length (fst (ScanLines content))))
              = ''line '' @ showNat (length (fst (ScanLines content)))
                @ '': expected CPU statistics after timestamp, but reached end of file''"
      by (rule conjI)
  qed
  from first second third show ?thesis by (intro conjI)
qed

theorem ParseIOStat_CPUStats_set_witness:
  "(\<exists>d. ParseIOStat sampleLib
           (joinLines [ioSystemLine, [], ioTimestamp1, ioCPUHeader, ioCPURow, [],
                       ioDeviceHeader, ioRowSda, [], ioTimestamp2, ioCPUHeader, ioCPURow])
         = Inr d
        \<and> length (IOSnapshots d) = 2
        \<and> list_all (\<lambda>s. CPUStats s \<noteq> None) (IOSnapshots d))
   \<and> ParseIOStat sampleLib (joinLines [ioSystemLine, ioTimestamp1, ioCPUHeader, ioTimestamp2])
       = Inl (ExpectedCPUFoundTimestamp 4)
   \<and> ParseIOStat sampleLib (joinLines [ioSystemLine, ioTimestamp1])
       = Inl (ExpectedCPUReachedEOF 2)"
proof -
  let ?good = "joinLines [ioSystemLine, [], ioTimestamp1, ioCPUHeader, ioCPURow, [],
                          ioDeviceHeader, ioRowSda, [], ioTimestamp2, ioCPUHeader, ioCPURow]"
  let ?two = "joinLines [ioSystemLine, ioTimestamp1, ioCPUHeader, ioTimestamp2]"
  let ?pre = "[ioSystemLine, ioTimestamp1, ioCPUHeader]"
  let ?stp = "projr (iostatLoop sampleLib ?pre iostatInit)"
  let ?cut = "joinLines [ioSystemLine, ioTimestamp1]"
  let ?d = "projr (ParseIOStat sampleLib ?good)"
  let ?st = "projr (iostatLoop sampleLib (fst (ScanLines ?cut)) iostatInit)"
  have "case ParseIOStat sampleLib ?good of
          Inl e \<Rightarrow> False
        | Inr d \<Rightarrow> length (IOSnapshots d) = 2"
    by code_simp
  then have "ParseIOStat sampleLib ?good = Inr ?d \<and> length (IOSnapshots ?d) = 2"
    by (rule case_sum_projr)
  then have d: "ParseIOStat sampleLib ?good = Inr ?d" and l: "length (IOSnapshots ?d) = 2"
    by (rule conjunct1, rule conjunct2)
  have a: "list_all (\<lambda>s. CPUStats s \<noteq> None) (IOSnapshots ?d)"
    by (rule conjunct1 [OF ParseIOStat_CPUStats_set, rule_format, OF d])
  have lines: "fst (ScanLines ?two) = ?pre @ [ioTimestamp2] @ []" by code_simp
  have "\<not> isl (iostatLoop sampleLib ?pre iostatInit)" by code_simp
  then have sp: "iostatLoop sampleLib ?pre iostatInit = Inr ?stp"
    by (rule not_isl_projr)
  have op: "ioCurrentSnapshot ?stp \<noteq> None" and ep: "expectingCPUStats ?stp"
    and tp: "isTimestampLine (TrimSpace ioTimestamp2)"
    and np: "\<not> (systemInfo ?stp = [] \<and> Contains (TrimSpace ioTimestamp2) ''Linux'')"
    by code_simp+
  have premp: "fst (ScanLines ?two) = ?pre @ [ioTimestamp2] @ []
         \<and> iostatLoop sampleLib ?pre iostatInit = Inr ?stp
         \<and> ioCurrentSnapshot ?stp \<noteq> None \<and> expectingCPUStats ?stp
         \<and> isTimestampLine (TrimSpace ioTimestamp2)
         \<and> \<not> (systemInfo ?stp = [] \<and> Contains (TrimSpace ioTimestamp2) ''Linux'')"
    using lines sp op ep tp np by (intro conjI)
  have "ParseIOStat sampleLib ?two = Inl (ExpectedCPUFoundTimestamp (length ?pre + 1))"
    by (rule conjunct1 [OF conjunct1 [OF conjunct2 [OF ParseIOStat_CPUStats_set],
                                      rule_format, OF premp]])
  then have t: "ParseIOStat sampleLib ?two = Inl (ExpectedCPUFoundTimestamp 4)"
    by simp
  have "\<not> isl (iostatLoop sampleLib (fst (ScanLines ?cut)) iostatInit)" by code_simp
  then have s: "iostatLoop sampleLib (fst (ScanLines ?cut)) iostatInit = Inr ?st"
    by (rule not_isl_projr)
  have o: "ioCurrentSnapshot ?st \<noteq> None" and e: "expectingCPUStats ?st"
    by code_simp+
  have n: "length (fst (ScanLines ?cut)) = 2" by code_simp
  have prem: "iostatLoop sampleLib (fst (ScanLines ?cut)) iostatInit = Inr ?st
              \<and> ioCurrentSnapshot ?st \<noteq> None \<and> expectingCPUStats ?st"
    using s o e by (intro conjI)
  have "ParseIOStat sampleLib ?cut
          = Inl (ExpectedCPUReachedEOF (length (fst (ScanLines ?cut))))"
    by (rule conjunct1 [OF conjunct2 [OF conjunct2 [OF ParseIOStat_CPUStats_set],
                                      rule_format, OF prem]])
  then have b: "ParseIOStat sampleLib ?cut = Inl (ExpectedCPUReachedEOF 2)"
    by (simp only: n)
  have "\<exists>d. ParseIOStat sampleLib ?good = Inr d \<and> length (IOSnapshots d) = 2
             \<and> list_all (\<lambda>s. CPUStats s \<noteq> None) (IOSnapshots d)"
    by (rule exI [of _ ?d]) (intro conjI d l a)
  with t b show ?thesis by (intro conjI)
qed

subsection \<open>Rows of the device section\<close>

lemma iostatLine_data:
  assumes "inDeviceSection st" and "ioCurrentSnapshot st = Some s"
    and "\<not> expectingCPUStats st" and "isDataLine st text"
  shows "iostatLine lib text st =
           (case parseDeviceStatsLine lib (TrimSpace text) of
              Inl c \<Rightarrow> Inl (FailedToParseDeviceStatistics (lineNumber st + 1) c)
            | Inr d \<Rightarrow>
                Inr (st\<lparr>lineNumber := lineNumber st + 1,
                         ioCurrentSnapshot := Some (s\<lparr>Devices := Devices s @ [d]\<rparr>)\<rparr>))"
  using assms
  by (auto simp: iostatLine_def isDataLine_def Let_def split: sum.splits)

lemma iostatLoop_data:
  assumes "inDeviceSection st" and "ioCurrentSnapshot st = Some s"
    and "\<not> expectingCPUStats st"
    and "\<forall>r \<in> set rows. isDataLine st r"
    and "\<forall>r \<in> set rows. parseDeviceStatsLine lib (TrimSpace r) = Inr (rowOf r)"
  shows "iostatLoop lib rows st =
           Inr (st\<lparr>lineNumber := lineNumber st + length rows,
                    ioCurrentSnapshot := Some (s\<lparr>Devices := Devices s @ map rowOf rows\<rparr>)\<rparr>)"
  using assms
proof (induction rows arbitrary: st s)
  case Nil
  then show ?case by simp
next
  case (Cons r rows)
  let ?st1 = "st\<lparr>lineNumber := lineNumber st + 1,
                  ioCurrentSnapshot := Some (s\<lparr>Devices := Devices s @ [rowOf r]\<rparr>)\<rparr>"
  have d: "isDataLine st r" and p: "parseDeviceStatsLine lib (TrimSpace r) = Inr (rowOf r)"
    using Cons.prems by simp_all
  have 1: "iostatLine lib r st = Inr ?st1"
    using iostatLine_data [OF Cons.prems(1,2,3) d, of lib] p by simp
  have dl: "\<forall>x \<in> set rows. isDataLine ?st1 x"
    using Cons.prems(4) by (simp add: isDataLine_def)
  have pl: "\<forall>x \<in> set rows. parseDeviceStatsLine lib (TrimSpace x) = Inr (rowOf x)"
    using Cons.prems(5) by simp
  have "iostatLoop lib rows ?st1 =
          Inr (?st1\<lparr>lineNumber := lineNumber ?st1 + length rows,
                     ioCurrentSnapshot :=
                       Some ((s\<lparr>Devices := Devices s @ [rowOf r]\<rparr>)
                               \<lparr>Devices := Devices (s\<lparr>Devices := Devices s @ [rowOf r]\<rparr>)
                                             @ map rowOf rows\<rparr>)\<rparr>)"
    by (rule Cons.IH [OF _ _ _ dl pl]) (simp_all add: Cons.prems)
  with 1 show ?case by simp
qed

lemma parseValues_ok:
  "(\<exists>vs. parseValues lib i fs = Inr vs) \<longleftrightarrow> list_all (\<lambda>f. ParseFloat lib f \<noteq> None) fs"
proof (induction fs arbitrary: i)
  case Nil
  show ?case by simp
next
  case (Cons f fs)
  show ?case
    using Cons.IH [of "Suc i"]
    by (cases "parseValues lib (Suc i) fs") (auto split: option.splits)
qed

lemma parseDeviceStatsLine_ok:
  "(\<exists>d. parseDeviceStatsLine lib line = Inr d)
   \<longleftrightarrow> length (Fields line) = 23
       \<and> list_all (\<lambda>f. ParseFloat lib f \<noteq> None) (tl (Fields line))"
proof (cases "length (Fields line) = 23")
  case False
  then show ?thesis by (simp add: parseDeviceStatsLine_def)
next
  case True
  show ?thesis
  proof (cases "parseValues lib 1 (tl (Fields line))")
    case (Inl c)
    with parseValues_ok [of lib 1 "tl (Fields line)"] True show ?thesis
      by (simp add: parseDeviceStatsLine_def)
  next
    case (Inr vs)
    with parseValues_ok [of lib 1 "tl (Fields line)"] True show ?thesis
      by (simp add: parseDeviceStatsLine_def)
  qed
qed

text \<open>
  Claim C5, as the code has it. Let the device section of the open snapshot be entered
  and its CPU statistics be parsed (\<open>expectingCPUStats\<close> is cleared). Then every data
  line that the scanner delivers next must have exactly 23 fields, the last 22 of them
  numbers: after any number of such lines, each of which appends one \<open>DeviceStats\<close> in
  the order of the lines, the next data line either appends another one or makes
  \<open>ParseIOStat\<close> fail with \<open>line N: failed to parse device statistics: ...\<close>, \<open>N\<close> being
  the number of that line counted from 1. A line parses as \<open>DeviceStats\<close> exactly when
  it has 23 fields and \<open>ParseFloat\<close> accepts the last 22.
\<close>

theorem iostat_device_rows:
  assumes "fst (ScanLines content) = pre @ good @ [next] @ rest"
    and "iostatLoop lib pre iostatInit = Inr st"
    and "inDeviceSection st" and "ioCurrentSnapshot st = Some s"
    and "\<not> expectingCPUStats st"
    and "\<forall>r \<in> set (good @ [next]). isDataLine st r"
    and "\<forall>r \<in> set good. parseDeviceStatsLine lib (TrimSpace r) = Inr (rowOf r)"
  shows "(case parseDeviceStatsLine lib (TrimSpace next) of
            Inl c \<Rightarrow>
              ParseIOStat lib content
                = Inl (FailedToParseDeviceStatistics (length pre + length good + 1) c)
              \<and> HasPrefix
                  (errorText (FailedToParseDeviceStatistics (length pre + length good + 1) c))
                  (''line '' @ showNat (length pre + length good + 1)
                   @ '': failed to parse device statistics'')
          | Inr d \<Rightarrow>
              iostatLoop lib (pre @ good @ [next]) iostatInit
                = Inr (st\<lparr>lineNumber := length pre + length good + 1,
                           ioCurrentSnapshot :=
                             Some (s\<lparr>Devices := Devices s @ map rowOf good @ [d]\<rparr>)\<rparr>))
         \<and> (\<forall>line. (\<exists>d. parseDeviceStatsLine lib line = Inr d)
                \<longleftrightarrow> length (Fields line) = 23
                    \<and> list_all (\<lambda>f. ParseFloat lib f \<noteq> None) (tl (Fields line)))"
proof -
  let ?s1 = "s\<lparr>Devices := Devices s @ map rowOf good\<rparr>"
  let ?st1 = "st\<lparr>lineNumber := lineNumber st + length good, ioCurrentSnapshot := Some ?s1\<rparr>"
  have n: "lineNumber st = length pre"
    using assms(2) by (rule iostatLoop_init_lineNumber)
  have dg: "\<forall>r \<in> set good. isDataLine st r" and dn: "isDataLine st next"
    using assms(6) by simp_all
  have g: "iostatLoop lib good st = Inr ?st1"
    by (rule iostatLoop_data [OF assms(3,4,5) dg assms(7)])
  have dn1: "isDataLine ?st1 next"
    using dn by (simp add: isDataLine_def)
  have step: "iostatLine lib next ?st1 =
           (case parseDeviceStatsLine lib (TrimSpace next) of
              Inl c \<Rightarrow> Inl (FailedToParseDeviceStatistics (lineNumber ?st1 + 1) c)
            | Inr d \<Rightarrow>
                Inr (?st1\<lparr>lineNumber := lineNumber ?st1 + 1,
                           ioCurrentSnapshot := Some (?s1\<lparr>Devices := Devices ?s1 @ [d]\<rparr>)\<rparr>))"
    by (rule iostatLine_data [OF _ _ _ dn1]) (simp_all add: assms(3,5))
  have pg: "iostatLoop lib (pre @ good) iostatInit = Inr ?st1"
    using assms(2) g by (simp add: iostatLoop_append)
  have lines: "fst (ScanLines content) = (pre @ good) @ [next] @ rest"
    using assms(1) by simp
  have first: "(case parseDeviceStatsLine lib (TrimSpace next) of
            Inl c \<Rightarrow>
              ParseIOStat lib content
                = Inl (FailedToParseDeviceStatistics (length pre + length good + 1) c)
              \<and> HasPrefix
                  (errorText (FailedToParseDeviceStatistics (length pre + length good + 1) c))
                  (''line '' @ showNat (length pre + length good + 1)
                   @ '': failed to parse device statistics'')
          | Inr d \<Rightarrow>
              iostatLoop lib (pre @ good @ [next]) iostatInit
                = Inr (st\<lparr>lineNumber := length pre + length good + 1,
                           ioCurrentSnapshot :=
                             Some (s\<lparr>Devices := Devices s @ map rowOf good @ [d]\<rparr>)\<rparr>))"
  proof (cases "parseDeviceStatsLine lib (TrimSpace next)")
    case (Inl c)
    with step n
    have e: "iostatLine lib next ?st1
               = Inl (FailedToParseDeviceStatistics (length pre + length good + 1) c)"
      by simp
    have r: "ParseIOStat lib content
               = Inl (FailedToParseDeviceStatistics (length pre + length good + 1) c)"
      by (rule ParseIOStat_fails_at [OF lines pg e])
    have m: "HasPrefix
               (errorText (FailedToParseDeviceStatistics (length pre + length good + 1) c))
               (''line '' @ showNat (length pre + length good + 1)
                @ '': failed to parse device statistics'')"
      by (simp add: HasPrefix_def del: showNat.simps)
    from Inl r m show ?thesis by simp
  next
    case (Inr d)
    with step n
    have "iostatLine lib next ?st1
            = Inr (st\<lparr>lineNumber := length pre + length good + 1,
                       ioCurrentSnapshot :=
                         Some (s\<lparr>Devices := Devices s @ map rowOf good @ [d]\<rparr>)\<rparr>)"
      by simp
    then have one: "iostatLoop lib [next] ?st1
            = Inr (st\<lparr>lineNumber := length pre + length good + 1,
                       ioCurrentSnapshot :=
                         Some (s\<lparr>Devices := Devices s @ map rowOf good @ [d]\<rparr>)\<rparr>)"
      by simp
    have "iostatLoop lib ((pre @ good) @ [next]) iostatInit = iostatLoop lib [next] ?st1"
      unfolding iostatLoop_append [of lib "pre @ good" "[next]"] pg by simp
    with one have "iostatLoop lib (pre @ good @ [next]) iostatInit
            = Inr (st\<lparr>lineNumber := length pre + length good + 1,
                       ioCurrentSnapshot :=
                         Some (s\<lparr>Devices := Devices s @ map rowOf good @ [d]\<rparr>)\<rparr>)"
      by (simp only: append_assoc)
    with Inr show ?thesis by (simp only: sum.case)
  qed
  from first parseDeviceStatsLine_ok [of lib] show ?thesis by blast
qed

theorem iostat_device_rows_witness:
  "ParseIOStat sampleLib
     (joinLines [ioSystemLine, [], ioTimestamp1, ioCPUHeader, ioCPURow, [],
                 ioDeviceHeader, ioRowSda, ioRowShort])
   = Inl (FailedToParseDeviceStatistics 9 (ExpectedDeviceStatFields 22))"
proof -
  let ?pre = "[ioSystemLine, [], ioTimestamp1, ioCPUHeader, ioCPURow, [], ioDeviceHeader]"
  let ?content = "joinLines [ioSystemLine, [], ioTimestamp1, ioCPUHeader, ioCPURow, [],
                             ioDeviceHeader, ioRowSda, ioRowShort]"
  let ?st = "projr (iostatLoop sampleLib ?pre iostatInit)"
  let ?s = "the (ioCurrentSnapshot ?st)"
  let ?rowOf = "\<lambda>r. projr (parseDeviceStatsLine sampleLib (TrimSpace r))"
  have lines: "fst (ScanLines ?content) = ?pre @ [ioRowSda] @ [ioRowShort] @ []"
    by code_simp
  have "case iostatLoop sampleLib ?pre iostatInit of
          Inl e \<Rightarrow> False
        | Inr st \<Rightarrow>
            inDeviceSection st \<and> ioCurrentSnapshot st \<noteq> None \<and> \<not> expectingCPUStats st
            \<and> isDataLine st ioRowSda \<and> isDataLine st ioRowShort"
    by code_simp
  then have all: "iostatLoop sampleLib ?pre iostatInit = Inr ?st
        \<and> (inDeviceSection ?st \<and> ioCurrentSnapshot ?st \<noteq> None \<and> \<not> expectingCPUStats ?st
            \<and> isDataLine ?st ioRowSda \<and> isDataLine ?st ioRowShort)"
    by (rule case_sum_projr)
  from all have s: "iostatLoop sampleLib ?pre iostatInit = Inr ?st"
    by (rule conjunct1)
  note r1 = conjunct2 [OF all]
  note a = conjunct1 [OF r1]
  note r2 = conjunct2 [OF r1]
  note r3 = conjunct2 [OF r2]
  note c = conjunct1 [OF r3]
  note r4 = conjunct2 [OF r3]
  have b: "ioCurrentSnapshot ?st = Some ?s"
    by (rule not_None_the [OF conjunct1 [OF r2]])
  have d: "\<forall>r \<in> set ([ioRowSda] @ [ioRowShort]). isDataLine ?st r"
    by (rule ball_two [of "isDataLine ?st", OF conjunct1 [OF r4] conjunct2 [OF r4]])
  have "\<not> isl (parseDeviceStatsLine sampleLib (TrimSpace ioRowSda))" by code_simp
  then have "parseDeviceStatsLine sampleLib (TrimSpace ioRowSda) = Inr (?rowOf ioRowSda)"
    by (rule not_isl_projr)
  then have e: "\<forall>r \<in> set [ioRowSda].
                  parseDeviceStatsLine sampleLib (TrimSpace r) = Inr (?rowOf r)"
    by simp
  have p: "parseDeviceStatsLine sampleLib (TrimSpace ioRowShort)
             = Inl (ExpectedDeviceStatFields 22)"
    by code_simp
  note th = conjunct1 [OF iostat_device_rows [OF lines s a b c d e]]
  from th have "ParseIOStat sampleLib ?content
      = Inl (FailedToParseDeviceStatistics (length ?pre + length [ioRowSda] + 1)
               (ExpectedDeviceStatFields 22))"
    unfolding p sum.case by (rule conjunct1)
  then show ?thesis by simp
qed

text \<open>
  While the CPU statistics are still expected the claim fails: after a time stamp and
  the \<open>Device\<close> header, a row of 23 fields with 22 numbers is not appended and the
  error is the one about the CPU statistics. It fails as well for a row that the
  scanner does not deliver: a row of 65536 bytes in the device section ends the scan,
  and \<open>ParseIOStat\<close>, which does not look at the error of the scanner, returns the
  snapshot without a device and without an error.
\<close>

theorem iostat_device_rows_counterexample:
  "HasPrefix ioDeviceHeader ''Device''
   \<and> inDeviceSection (projr (iostatLoop sampleLib [ioTimestamp1, ioDeviceHeader] iostatInit))
   \<and> length (Fields ioRowSda) = 23
   \<and> list_all (\<lambda>f. ParseFloat sampleLib f \<noteq> None) (tl (Fields ioRowSda))
   \<and> ParseIOStat sampleLib (joinLines [ioTimestamp1, ioDeviceHeader, ioRowSda])
       = Inl (ExpectedCPUFields 3 23)
   \<and> errorText (ExpectedCPUFields 3 23)
       = ''line 3: expected CPU statistics with 6 fields, got 23 fields''
   \<and> inDeviceSection
       (projr (iostatLoop sampleLib [ioTimestamp1, ioCPUHeader, ioCPURow, ioDeviceHeader]
                 iostatInit))
   \<and> \<not> isl (ParseIOStat sampleLib
              (joinLines [ioTimestamp1, ioCPUHeader, ioCPURow, ioDeviceHeader] @ ioLongRow))
   \<and> map Devices
       (IOSnapshots
          (projr (ParseIOStat sampleLib
                    (joinLines [ioTimestamp1, ioCPUHeader, ioCPURow, ioDeviceHeader]
                     @ ioLongRow))))
     = [[]]"
proof -
  let ?ls = "[ioTimestamp1, ioCPUHeader, ioCPURow, ioDeviceHeader]"
  have 1: "HasPrefix ioDeviceHeader ''Device''
   \<and> inDeviceSection (projr (iostatLoop sampleLib [ioTimestamp1, ioDeviceHeader] iostatInit))
   \<and> length (Fields ioRowSda) = 23
   \<and> list_all (\<lambda>f. ParseFloat sampleLib f \<noteq> None) (tl (Fields ioRowSda))
   \<and> ParseIOStat sampleLib (joinLines [ioTimestamp1, ioDeviceHeader, ioRowSda])
       = Inl (ExpectedCPUFields 3 23)
   \<and> errorText (ExpectedCPUFields 3 23)
       = ''line 3: expected CPU statistics with 6 fields, got 23 fields''
   \<and> inDeviceSection (projr (iostatLoop sampleLib ?ls iostatInit))"
    by code_simp
  have f: "\<forall>l \<in> set ?ls. CHR 0x0A \<notin> set l \<and> fitsBuffer l"
    by code_simp
  have b1: "ioLongRow \<noteq> []"
    unfolding ioLongRow_def by (simp only: replicate_empty; simp)
  have b2: "CHR 0x0A \<notin> set ioLongRow"
    unfolding ioLongRow_def by (simp only: set_replicate_conv_if; simp)
  have b3: "\<not> fitsBuffer ioLongRow"
    unfolding ioLongRow_def fitsBuffer_def MaxScanTokenSize_def
    by (simp only: length_replicate; simp)
  have t: "([] :: string) = [] \<or> (\<exists>r. ([] :: string) = CHR 0x0A # r)"
    by simp
  have d: "map dropCR ?ls = ?ls" by code_simp
  have "fst (ScanLines (joinLines ?ls @ ioLongRow @ [])) = ?ls"
    using ScanLines_stops [OF f b1 b2 b3 t] d by (simp only:)
  then have s: "fst (ScanLines (joinLines ?ls @ ioLongRow)) = ?ls"
    by (simp only: append_Nil2)
  have ne: "?ls \<noteq> []" by simp
  have e: "\<not> isl (case iostatLoop sampleLib ?ls iostatInit of
                    Inl e \<Rightarrow> Inl e
                  | Inr st \<Rightarrow> iostatFinish st)
           \<and> map Devices
               (IOSnapshots
                  (projr (case iostatLoop sampleLib ?ls iostatInit of
                            Inl e \<Rightarrow> Inl e
                          | Inr st \<Rightarrow> iostatFinish st)))
             = [[]]"
    by code_simp
  have 2: "\<not> isl (ParseIOStat sampleLib (joinLines ?ls @ ioLongRow))
           \<and> map Devices (IOSnapshots (projr (ParseIOStat sampleLib (joinLines ?ls @ ioLongRow))))
             = [[]]"
    unfolding ParseIOStat_loop [OF s ne] by (rule e)
  from 1 2 show ?thesis by simp
qed

end
